theory Spec2Isabelle
  imports Main
begin

section \<open>The file scanner of \<^verbatim>\<open>pkg/file/scan.go\<close>\<close>

text \<open>
  A shallow embedding of the scanner that reconciles a filesystem view with the catalog
  of folder and file rows. Go structs are records, interfaces are records of functions
  (or plain function types), a \<^verbatim>\<open>(value, error)\<close> result is a sum with \<open>Inl\<close> for
  the error, a nil-able pointer is an \<open>option\<close>, and the mutable world (catalog, folder
  cache, logger output, pending post-commit hooks) is a state record threaded through
  every function.
\<close>

subsection \<open>Data model\<close>

type_synonym FileID = nat
type_synonym FolderID = nat

text \<open>\<^verbatim>\<open>time.Time\<close> at the second precision the catalog stores.\<close>
type_synonym time = int

text \<open>An \<^verbatim>\<open>error\<close> value: an opaque error of a collaborator, or
  \<^verbatim>\<open>fmt.Errorf(format, arg)\<close> with the cause it wraps (\<^verbatim>\<open>%w\<close>), if any.\<close>
datatype error =
    Error string
  | Errorf string string "error option"

text \<open>Modelled from the spec: \<^verbatim>\<open>models.Fingerprint\<close> (the models package is not among
  the sources): a typed digest, \<open>Type\<close> one of the fingerprint type names and
  \<open>Fingerprint\<close> the opaque value.\<close>
record Fingerprint =
  Type :: string
  Fingerprint :: string

definition FingerprintTypeOshash :: string where
  "FingerprintTypeOshash = ''oshash''"

definition FingerprintTypeMD5 :: string where
  "FingerprintTypeMD5 = ''md5''"

text \<open>The chain of enclosing archives of an entry (\<^verbatim>\<open>BaseFile.ZipFile\<close>, itself a file
  with a \<^verbatim>\<open>ZipFile\<close>): what \<^verbatim>\<open>getFileFS\<close> reads of it.\<close>
datatype ZipRef = ZipRef (zip_Path: string) (zip_Size: int) (zip_ZipFile: "ZipRef option")

text \<open>Modelled from the spec: \<^verbatim>\<open>models.BaseFile\<close> with the attributes of section 3
  (the embedded \<^verbatim>\<open>DirEntry\<close> flattened).\<close>
record BaseFile =
  ID :: FileID
  Path :: string
  Basename :: string
  ParentFolderID :: FolderID
  ZipFileID :: "FileID option"
  ZipFile :: "ZipRef option"
  ModTime :: time
  Size :: int
  Fingerprints :: "Fingerprint list"
  CreatedAt :: time
  UpdatedAt :: time

text \<open>\<^verbatim>\<open>models.File\<close>: an interface over the file kinds, each with its \<^verbatim>\<open>Base()\<close>.
  \<open>Meta\<close> stands for the subtype attributes the decorators populate.\<close>
record File =
  Base :: BaseFile
  Meta :: string

text \<open>Modelled from the spec: \<^verbatim>\<open>models.Folder\<close> with the attributes of section 3.\<close>
record Folder =
  Folder_ID :: FolderID
  Folder_Path :: string
  Folder_ParentFolderID :: "FolderID option"
  Folder_ZipFileID :: "FileID option"
  Folder_ModTime :: time
  Folder_CreatedAt :: time
  Folder_UpdatedAt :: time

text \<open>\<^verbatim>\<open>fs.FileInfo\<close>, as far as a path filter may look at it.\<close>
record FileInfo =
  info_Size :: int
  info_ModTime :: time
  info_IsDir :: bool

text \<open>\<^verbatim>\<open>models.FS\<close>: the capability surface the scanner uses. \<open>Lstat\<close> is \<open>None\<close> when
  the call returns an error; \<open>IsPathCaseSensitive\<close> is the boolean the call returns (the
  scanner drops its error); \<open>OpenZip\<close> is \<open>None\<close> when the archive cannot be opened.\<close>
datatype fs = MkFS
  (Lstat: "string \<Rightarrow> FileInfo option")
  (IsPathCaseSensitive: "string \<Rightarrow> bool")
  (OpenZip: "string \<Rightarrow> int \<Rightarrow> fs option")

text \<open>\<^verbatim>\<open>ScannedFile\<close>: the snapshot of an entry on disk.\<close>
record ScannedFile =
  BaseFile :: BaseFile
  FileFS :: fs
  Info :: FileInfo

text \<open>The persistent catalog: the rows of the file and folder tables, in storage order.\<close>
record catalog =
  files :: "File list"
  folders :: "Folder list"

text \<open>\<^verbatim>\<open>Repository\<close>: the \<^verbatim>\<open>models.FileReaderWriter\<close> and \<^verbatim>\<open>models.FolderReaderWriter\<close>
  interfaces, each method a function of the catalog it runs against. \<open>Create\<close> returns the
  row with the identifier the store assigned.\<close>
record Repository =
  File_FindByPath :: "catalog \<Rightarrow> string \<Rightarrow> bool \<Rightarrow> error + File option"
  File_FindByFingerprint :: "catalog \<Rightarrow> Fingerprint \<Rightarrow> error + File list"
  File_Create :: "catalog \<Rightarrow> File \<Rightarrow> error + File \<times> catalog"
  File_Update :: "catalog \<Rightarrow> File \<Rightarrow> error + catalog"
  Folder_FindByPath :: "catalog \<Rightarrow> string \<Rightarrow> bool \<Rightarrow> error + Folder option"
  Folder_Create :: "catalog \<Rightarrow> Folder \<Rightarrow> error + Folder \<times> catalog"
  Folder_Update :: "catalog \<Rightarrow> Folder \<Rightarrow> error + catalog"

text \<open>\<^verbatim>\<open>Decorator\<close>: both methods of the interface.\<close>
record Decorator =
  Decorate :: "fs \<Rightarrow> File \<Rightarrow> error + File"
  IsMissingMetadata :: "fs \<Rightarrow> File \<Rightarrow> bool"

text \<open>What the scanner does to its collaborators, in order: the lines it hands to the
  logger, and its calls of decorators, handlers and folder move detection.\<close>
datatype event =
    EvLog string
  | EvDecorate File
  | EvHandle File "File option"
  | EvDetectFolderMove string

text \<open>\<^verbatim>\<open>Scanner\<close>. The fields up to \<open>Rescan\<close> are the struct's. The others are what the
  scanner calls outside \<^verbatim>\<open>scan.go\<close> and the development is parametric in: the method
  \<^verbatim>\<open>detectFolderMove\<close>, the package functions \<^verbatim>\<open>correctSubFolderHierarchy\<close> and
  \<^verbatim>\<open>transferZipHierarchy\<close>, \<^verbatim>\<open>BaseFile.SetFingerprints\<close> and
  \<^verbatim>\<open>Fingerprints.ContentsChanged\<close> of the models package, and the library functions
  \<^verbatim>\<open>filepath.Dir\<close>, \<^verbatim>\<open>filepath.Ext\<close> and \<^verbatim>\<open>strings.EqualFold\<close>.\<close>
record Scanner =
  FS :: fs
  Repository :: Repository
  FingerprintCalculator :: "BaseFile \<Rightarrow> fs \<Rightarrow> string \<Rightarrow> bool \<Rightarrow> error + Fingerprint list"
  ZipFileExtensions :: "string list"
  ScanFilters :: "(string \<Rightarrow> FileInfo \<Rightarrow> bool) list"
  HandlerRequiredFilters :: "(catalog \<Rightarrow> File \<Rightarrow> bool) list"
  FileDecorators :: "Decorator list"
  FileHandlers :: "(catalog \<Rightarrow> File \<Rightarrow> File option \<Rightarrow> error option) list"
  Rescan :: bool
  detectFolderMove :: "catalog \<Rightarrow> ScannedFile \<Rightarrow> error + Folder option"
  correctSubFolderHierarchy :: "catalog \<Rightarrow> Folder \<Rightarrow> error + catalog"
  transferZipHierarchy :: "catalog \<Rightarrow> FileID \<Rightarrow> string \<Rightarrow> string \<Rightarrow> error + catalog"
  SetFingerprints :: "BaseFile \<Rightarrow> Fingerprint list \<Rightarrow> BaseFile"
  ContentsChanged :: "Fingerprint list \<Rightarrow> Fingerprint list \<Rightarrow> bool"
  filepath_Dir :: "string \<Rightarrow> string"
  filepath_Ext :: "string \<Rightarrow> string"
  strings_EqualFold :: "string \<Rightarrow> string \<Rightarrow> bool"

text \<open>The mutable world: the catalog, the scanner's \<^verbatim>\<open>folderPathToID\<close> cache, everything
  emitted so far, the post-commit hooks of the open transaction (each hook of
  \<^verbatim>\<open>scan.go\<close> logs one line, so a hook is its line), and the reading of \<^verbatim>\<open>time.Now()\<close>.\<close>
record scan_state =
  db :: catalog
  folderPathToID :: "string \<rightharpoonup> FolderID"
  trace :: "event list"
  postCommitHooks :: "string list"
  now :: time

type_synonym 'a action = "scan_state \<Rightarrow> (error + 'a) \<times> scan_state"

definition emit :: "event \<Rightarrow> scan_state \<Rightarrow> scan_state" where
  "emit e st = st\<lparr>trace := trace st @ [e]\<rparr>"

text \<open>\<^verbatim>\<open>logger.Infof\<close> and \<^verbatim>\<open>logger.Debugf\<close>: the line is printed at once.\<close>
definition logger_Infof :: "string \<Rightarrow> scan_state \<Rightarrow> scan_state" where
  "logger_Infof msg st = emit (EvLog msg) st"

definition logger_Debugf :: "string \<Rightarrow> scan_state \<Rightarrow> scan_state" where
  "logger_Debugf msg st = emit (EvLog msg) st"

text \<open>The verb \<^verbatim>\<open>%q\<close> of a log line, for a path with no character to escape: the path
  in double quotes.\<close>
definition fmt_q :: "string \<Rightarrow> string" where
  "fmt_q p = CHR 0x22 # p @ [CHR 0x22]"

subsection \<open>Transactions\<close>

text \<open>Modelled from the spec: \<^verbatim>\<open>txn.AddPostCommitHook\<close> (the txn package is not among the
  sources). A hook registered inside a transaction is kept until the transaction ends.\<close>
definition AddPostCommitHook :: "string \<Rightarrow> scan_state \<Rightarrow> scan_state" where
  "AddPostCommitHook msg st = st\<lparr>postCommitHooks := postCommitHooks st @ [msg]\<rparr>"

text \<open>Modelled from the spec: \<^verbatim>\<open>Repository.WithTxn\<close> hands over to \<^verbatim>\<open>txn.WithTxn\<close>, which
  is not among the sources. A body that returns an error rolls the catalog back and drops
  the hooks; a body that succeeds commits, and then each hook fires once. What the body
  printed and what it stored in the folder cache is outside the transaction and stays.\<close>
definition WithTxn :: "'a action \<Rightarrow> 'a action" where
  "WithTxn fn st =
     (case fn (st\<lparr>postCommitHooks := []\<rparr>) of
        (Inl err, st') \<Rightarrow> (Inl err, st'\<lparr>db := db st, postCommitHooks := []\<rparr>)
      | (Inr r, st') \<Rightarrow>
          (Inr r, st'\<lparr>trace := trace st' @ map EvLog (postCommitHooks st'),
                       postCommitHooks := []\<rparr>))"

text \<open>\<^verbatim>\<open>Repository.WithDB\<close>: a database context without a transaction.\<close>
definition WithDB :: "'a action \<Rightarrow> 'a action" where
  "WithDB fn st = fn st"

subsection \<open>Folders\<close>

definition getFolderID :: "Scanner \<Rightarrow> string \<Rightarrow> (FolderID option) action" where
  "getFolderID s path st =
     (case folderPathToID st path of
        Some v \<Rightarrow> (Inr (Some v), st)
      | None \<Rightarrow>
          (case Folder_FindByPath (Repository s) (db st) path True of
             Inl err \<Rightarrow> (Inl err, st)
           | Inr None \<Rightarrow> (Inr None, st)
           | Inr (Some ret) \<Rightarrow>
               (Inr (Some (Folder_ID ret)),
                st\<lparr>folderPathToID := (folderPathToID st)(path \<mapsto> Folder_ID ret)\<rparr>)))"

definition handleFolderRename :: "Scanner \<Rightarrow> ScannedFile \<Rightarrow> (Folder option) action" where
  "handleFolderRename s file st =
     (if ZipFileID (BaseFile file) \<noteq> None then (Inr None, st)
      else
        let st1 = emit (EvDetectFolderMove (Path (BaseFile file))) st in
        case detectFolderMove s (db st1) file of
          Inl err \<Rightarrow> (Inl (Errorf ''detecting folder move: %w'' [] (Some err)), st1)
        | Inr None \<Rightarrow> (Inr None, st1)
        | Inr (Some renamedFrom) \<Rightarrow>
            (let st2 = logger_Infof (Folder_Path renamedFrom @ '' moved to '' @
                         Path (BaseFile file) @ ''. Updating path...'') st1;
                 renamedFrom1 = renamedFrom\<lparr>Folder_Path := Path (BaseFile file)\<rparr>
             in
             case getFolderID s (filepath_Dir s (Path (BaseFile file))) st2 of
               (Inl err, st3) \<Rightarrow>
                 (Inl (Errorf ''getting parent folder for %q: %w'' (Path (BaseFile file)) (Some err)), st3)
             | (Inr parentFolderID, st3) \<Rightarrow>
                 (let renamedFrom2 = renamedFrom1\<lparr>Folder_ParentFolderID := parentFolderID\<rparr> in
                  case Folder_Update (Repository s) (db st3) renamedFrom2 of
                    Inl err \<Rightarrow>
                      (Inl (Errorf ''updating folder for rename %q: %w''
                              (Folder_Path renamedFrom2) (Some err)), st3)
                  | Inr c \<Rightarrow>
                      (case correctSubFolderHierarchy s c renamedFrom2 of
                         Inl err \<Rightarrow>
                           (Inl (Errorf ''correcting sub folder hierarchy for %q: %w''
                                   (Folder_Path renamedFrom2) (Some err)), st3\<lparr>db := c\<rparr>)
                       | Inr c' \<Rightarrow> (Inr (Some renamedFrom2), st3\<lparr>db := c'\<rparr>)))))"

definition onNewFolder :: "Scanner \<Rightarrow> ScannedFile \<Rightarrow> Folder action" where
  "onNewFolder s file st =
     (case handleFolderRename s file st of
        (Inl err, st1) \<Rightarrow> (Inl err, st1)
      | (Inr (Some renamed), st1) \<Rightarrow> (Inr renamed, st1)
      | (Inr None, st1) \<Rightarrow>
          (let toCreate = \<lparr>Folder_ID = 0, Folder_Path = Path (BaseFile file),
                 Folder_ParentFolderID = None,
                 Folder_ZipFileID = ZipFileID (BaseFile file),
                 Folder_ModTime = ModTime (BaseFile file),
                 Folder_CreatedAt = now st1, Folder_UpdatedAt = now st1\<rparr>;
               dir = filepath_Dir s (Path (BaseFile file))
           in
           case (if dir \<noteq> ''.'' then getFolderID s dir st1 else (Inr None, st1)) of
             (Inl err, st2) \<Rightarrow> (Inl (Errorf ''getting parent folder %q: %w'' dir (Some err)), st2)
           | (Inr parentFolderID, st2) \<Rightarrow>
               (let toCreate1 = toCreate\<lparr>Folder_ParentFolderID := parentFolderID\<rparr>;
                    st3 = AddPostCommitHook
                            (Path (BaseFile file) @ '' doesn't exist. Creating new folder entry...'') st2
                in
                case Folder_Create (Repository s) (db st3) toCreate1 of
                  Inl err \<Rightarrow>
                    (Inl (Errorf ''creating folder %q: %w'' (Path (BaseFile file)) (Some err)), st3)
                | Inr (created, c) \<Rightarrow> (Inr created, st3\<lparr>db := c\<rparr>))))"

definition onExistingFolder :: "Scanner \<Rightarrow> ScannedFile \<Rightarrow> Folder \<Rightarrow> Folder action" where
  "onExistingFolder s f existing st =
     (let entryModTime = ModTime (BaseFile f);
          (existing1, update1) =
             (if entryModTime \<noteq> Folder_ModTime existing
              then (existing\<lparr>Folder_Path := Path (BaseFile f), Folder_ModTime := entryModTime\<rparr>, True)
              else (existing, False));
          (existing2, update2) =
             (if Folder_Path existing1 \<noteq> Path (BaseFile f)
              then (existing1\<lparr>Folder_Path := Path (BaseFile f)\<rparr>, True)
              else (existing1, update1));
          fZfID = ZipFileID (BaseFile f);
          existingZfID = Folder_ZipFileID existing2;
          (existing3, update3) =
             (if fZfID \<noteq> existingZfID then
                (if fZfID = None then (existing2\<lparr>Folder_ZipFileID := None\<rparr>, True)
                 else if existingZfID = None \<or> the fZfID \<noteq> the existingZfID
                   then (existing2\<lparr>Folder_ZipFileID := fZfID\<rparr>, True)
                   else (existing2, update2))
              else (existing2, update2))
      in
      if update3 then
        (case Folder_Update (Repository s) (db st) existing3 of
           Inl err \<Rightarrow> (Inl (Errorf ''updating folder %q: %w'' (Path (BaseFile f)) (Some err)), st)
         | Inr c \<Rightarrow> (Inr existing3, st\<lparr>db := c\<rparr>))
      else (Inr existing3, st))"

text \<open>The lookup that opens \<^verbatim>\<open>ScanFolder\<close>: by path, case-sensitively first; outside an
  archive and on a case-insensitive filesystem, case-insensitively next.\<close>
definition ScanFolder_find :: "Scanner \<Rightarrow> ScannedFile \<Rightarrow> catalog \<Rightarrow> error + Folder option" where
  "ScanFolder_find s file c =
     (let path = Path (BaseFile file) in
      case Folder_FindByPath (Repository s) c path True of
        Inl err \<Rightarrow> Inl (Errorf ''checking for existing folder %q: %w'' path (Some err))
      | Inr f \<Rightarrow>
          if f = None \<and> ZipFileID (BaseFile file) = None then
            (if \<not> IsPathCaseSensitive (FileFS file) path then
               (case Folder_FindByPath (Repository s) c path False of
                  Inl err \<Rightarrow> Inl (Errorf ''checking for existing folder %q: %w'' path (Some err))
                | Inr f1 \<Rightarrow> Inr f1)
             else Inr f)
          else Inr f)"

text \<open>The body \<^verbatim>\<open>ScanFolder\<close> runs inside its transaction.\<close>
definition ScanFolder_txn :: "Scanner \<Rightarrow> ScannedFile \<Rightarrow> Folder action" where
  "ScanFolder_txn s file st =
     (case ScanFolder_find s file (db st) of
        Inl err \<Rightarrow> (Inl err, st)
      | Inr f \<Rightarrow>
          (case (case f of None \<Rightarrow> onNewFolder s file st
                         | Some existing \<Rightarrow> onExistingFolder s file existing st) of
             (Inl err, st1) \<Rightarrow> (Inl err, st1)
           | (Inr f1, st1) \<Rightarrow>
               (Inr f1, st1\<lparr>folderPathToID :=
                              (folderPathToID st1)(Folder_Path f1 \<mapsto> Folder_ID f1)\<rparr>)))"

definition ScanFolder :: "Scanner \<Rightarrow> ScannedFile \<Rightarrow> Folder action" where
  "ScanFolder s file st = WithTxn (ScanFolder_txn s file) st"

subsection \<open>Fingerprint sets\<close>

text \<open>Modelled from the spec: \<^verbatim>\<open>Fingerprints.For\<close> of the models package. The set is keyed by
  fingerprint type: the fingerprint stored for a type, if there is one.\<close>
fun Fingerprints_For :: "Fingerprint list \<Rightarrow> string \<Rightarrow> Fingerprint option" where
  "Fingerprints_For [] type = None"
| "Fingerprints_For (fp # fps) type =
     (if Type fp = type then Some fp else Fingerprints_For fps type)"

text \<open>Modelled from the spec: \<^verbatim>\<open>Fingerprints.Remove\<close> of the models package: the set without
  what is stored for the type.\<close>
fun Fingerprints_Remove :: "Fingerprint list \<Rightarrow> string \<Rightarrow> Fingerprint list" where
  "Fingerprints_Remove [] type = []"
| "Fingerprints_Remove (fp # fps) type =
     (if Type fp \<noteq> type then fp # Fingerprints_Remove fps type
      else Fingerprints_Remove fps type)"

subsection \<open>Filters, decorators, handlers\<close>

definition AcceptEntry :: "Scanner \<Rightarrow> string \<Rightarrow> FileInfo \<Rightarrow> bool" where
  "AcceptEntry s path info =
     (ScanFilters s = [] \<or> list_ex (\<lambda>filter. filter path info) (ScanFilters s))"

definition IsZipFile :: "Scanner \<Rightarrow> string \<Rightarrow> bool" where
  "IsZipFile s path =
     (let fExt = filepath_Ext s path in
      list_ex (\<lambda>ext. strings_EqualFold s fExt (''.'' @ ext)) (ZipFileExtensions s))"

text \<open>The loop of \<^verbatim>\<open>fireDecorators\<close> over the decorators left to run.\<close>
fun fireDecorators_loop :: "Decorator list \<Rightarrow> fs \<Rightarrow> File \<Rightarrow> File action" where
  "fireDecorators_loop [] fs f st = (Inr f, st)"
| "fireDecorators_loop (h # hs) fs f st =
     (let st1 = emit (EvDecorate f) st in
      case Decorate h fs f of
        Inl err \<Rightarrow> (Inl err, st1)
      | Inr f1 \<Rightarrow> fireDecorators_loop hs fs f1 st1)"

definition fireDecorators :: "Scanner \<Rightarrow> fs \<Rightarrow> File \<Rightarrow> File action" where
  "fireDecorators s fs f st = fireDecorators_loop (FileDecorators s) fs f st"

text \<open>The loop of \<^verbatim>\<open>fireHandlers\<close> over the handlers left to run.\<close>
fun fireHandlers_loop ::
  "(catalog \<Rightarrow> File \<Rightarrow> File option \<Rightarrow> error option) list \<Rightarrow> File \<Rightarrow> File option \<Rightarrow> unit action" where
  "fireHandlers_loop [] f oldFile st = (Inr (), st)"
| "fireHandlers_loop (h # hs) f oldFile st =
     (let st1 = emit (EvHandle f oldFile) st in
      case h (db st1) f oldFile of
        Some err \<Rightarrow> (Inl err, st1)
      | None \<Rightarrow> fireHandlers_loop hs f oldFile st1)"

definition fireHandlers :: "Scanner \<Rightarrow> File \<Rightarrow> File option \<Rightarrow> unit action" where
  "fireHandlers s f oldFile st = fireHandlers_loop (FileHandlers s) f oldFile st"

definition calculateFingerprints ::
  "Scanner \<Rightarrow> fs \<Rightarrow> BaseFile \<Rightarrow> string \<Rightarrow> bool \<Rightarrow> (Fingerprint list) action" where
  "calculateFingerprints s fs f path useExisting st =
     (let st1 = (if \<not> useExisting
                 then logger_Infof (''Calculating fingerprints for '' @ path @ '' ...'') st
                 else st) in
      case FingerprintCalculator s f fs path useExisting of
        Inl err \<Rightarrow> (Inl (Errorf ''calculating fingerprint for file %q: %w'' path (Some err)), st1)
      | Inr fp \<Rightarrow> (Inr fp, st1))"

definition isHandlerRequired :: "Scanner \<Rightarrow> catalog \<Rightarrow> File \<Rightarrow> bool" where
  "isHandlerRequired s c f =
     (HandlerRequiredFilters s = [] \<or> list_ex (\<lambda>filter. filter c f) (HandlerRequiredFilters s))"

definition isMissingMetadata :: "Scanner \<Rightarrow> ScannedFile \<Rightarrow> File \<Rightarrow> bool" where
  "isMissingMetadata s f existing =
     list_ex (\<lambda>h. IsMissingMetadata h (FileFS f) existing) (FileDecorators s)"

subsection \<open>Rename detection\<close>

fun appendFileUnique :: "File list \<Rightarrow> File list \<Rightarrow> File list" where
  "appendFileUnique v [] = v"
| "appendFileUnique v (f # toAdd) =
     appendFileUnique
       (if list_ex (\<lambda>vv. ID (Base vv) = ID (Base f)) v then v else v @ [f]) toAdd"

text \<open>\<^verbatim>\<open>getFileFS\<close> along the chain of enclosing archives: the filesystem of the outer
  archive, then \<^verbatim>\<open>OpenZip\<close> on it.\<close>
fun getFileFS_zip :: "Scanner \<Rightarrow> ZipRef \<Rightarrow> error + fs" where
  "getFileFS_zip s (ZipRef zipPath zipSize outer) =
     (case (case outer of None \<Rightarrow> Inr (FS s) | Some z \<Rightarrow> getFileFS_zip s z) of
        Inl err \<Rightarrow> Inl err
      | Inr fs \<Rightarrow>
          (case OpenZip fs zipPath zipSize of
             None \<Rightarrow> Inl (Error ''open zip'')
           | Some zfs \<Rightarrow> Inr zfs))"

definition getFileFS :: "Scanner \<Rightarrow> BaseFile \<Rightarrow> error + fs" where
  "getFileFS s f = (case ZipFile f of None \<Rightarrow> Inr (FS s) | Some z \<Rightarrow> getFileFS_zip s z)"

text \<open>The first loop of \<^verbatim>\<open>handleRename\<close>: the catalog files that share a fingerprint with
  the scanned file, each once.\<close>
fun handleRename_others ::
  "Scanner \<Rightarrow> catalog \<Rightarrow> Fingerprint list \<Rightarrow> File list \<Rightarrow> error + File list" where
  "handleRename_others s c [] others = Inr others"
| "handleRename_others s c (tfp # fp) others =
     (case File_FindByFingerprint (Repository s) c tfp of
        Inl err \<Rightarrow> Inl (Errorf ''getting files by fingerprint %v: %w'' (Type tfp) (Some err))
      | Inr thisOthers \<Rightarrow> handleRename_others s c fp (appendFileUnique others thisOthers))"

text \<open>The second loop of \<^verbatim>\<open>handleRename\<close>: the candidates found missing, in order.\<close>
fun handleRename_missing ::
  "Scanner \<Rightarrow> File \<Rightarrow> File list \<Rightarrow> File list \<Rightarrow> scan_state \<Rightarrow> File list \<times> scan_state" where
  "handleRename_missing s f [] missing st = (missing, st)"
| "handleRename_missing s f (other # others) missing st =
     (let fZipID = ZipFileID (Base f);
          otherZipID = ZipFileID (Base other)
      in
      if otherZipID \<noteq> None \<and> (fZipID = None \<or> the otherZipID \<noteq> the fZipID)
      then handleRename_missing s f others missing st
      else
        (case getFileFS s (Base other) of
           Inl err \<Rightarrow> handleRename_missing s f others (missing @ [other]) st
         | Inr fs \<Rightarrow>
             (case Lstat fs (Path (Base other)) of
                None \<Rightarrow> handleRename_missing s f others (missing @ [other]) st
              | Some info \<Rightarrow>
                  if strings_EqualFold s (Path (Base f)) (Path (Base other)) then
                    (if \<not> IsPathCaseSensitive fs (Path (Base other))
                     then handleRename_missing s f others (missing @ [other]) st
                     else handleRename_missing s f others missing st)
                  else if \<not> AcceptEntry s (Path (Base other)) info then
                    handleRename_missing s f others (missing @ [other])
                      (logger_Debugf (''File '' @ fmt_q (Path (Base other)) @
                         '' no longer in library paths. Treating as a move.'') st)
                  else handleRename_missing s f others missing st)))"

text \<open>The transaction of \<^verbatim>\<open>handleRename\<close>.\<close>
definition handleRename_txn ::
  "Scanner \<Rightarrow> File \<Rightarrow> File \<Rightarrow> string \<Rightarrow> string \<Rightarrow> unit action" where
  "handleRename_txn s updated other oldPath newPath st =
     (case File_Update (Repository s) (db st) updated of
        Inl err \<Rightarrow> (Inl (Errorf ''updating file for rename %q: %w'' newPath (Some err)), st)
      | Inr c \<Rightarrow>
          (case (if IsZipFile s (Basename (Base updated))
                 then transferZipHierarchy s c (ID (Base updated)) oldPath newPath
                 else Inr c) of
             Inl err \<Rightarrow>
               (Inl (Errorf ''moving zip hierarchy for renamed zip file %q: %w'' newPath (Some err)),
                st\<lparr>db := c\<rparr>)
           | Inr c1 \<Rightarrow> fireHandlers s updated (Some other) (st\<lparr>db := c1\<rparr>)))"

text \<open>\<^verbatim>\<open>handleRename\<close> from the choice of the first missing candidate on.\<close>
definition handleRename_update :: "Scanner \<Rightarrow> File \<Rightarrow> File \<Rightarrow> (File option) action" where
  "handleRename_update s f other st =
     (let updatedBase = Base other;
          fBaseCopy = Base f;
          oldPath = Path updatedBase;
          newPath = Path fBaseCopy;
          st1 = logger_Infof (oldPath @ '' moved to '' @ newPath @ ''. Updating path...'') st;
          fBaseCopy1 = fBaseCopy\<lparr>ID := ID updatedBase, CreatedAt := CreatedAt updatedBase,
                         Fingerprints := Fingerprints updatedBase\<rparr>;
          updated = other\<lparr>Base := fBaseCopy1\<rparr>
      in
      case WithTxn (handleRename_txn s updated other oldPath newPath) st1 of
        (Inl err, st2) \<Rightarrow> (Inl err, st2)
      | (Inr u, st2) \<Rightarrow> (Inr (Some updated), st2))"

definition handleRename :: "Scanner \<Rightarrow> File \<Rightarrow> Fingerprint list \<Rightarrow> (File option) action" where
  "handleRename s f fp st =
     (case handleRename_others s (db st) fp [] of
        Inl err \<Rightarrow> (Inl err, st)
      | Inr others \<Rightarrow>
          (case handleRename_missing s f others [] st of
             (missing, st1) \<Rightarrow>
               (case missing of
                  [] \<Rightarrow> (Inr None, st1)
                | other # rest \<Rightarrow> handleRename_update s f other st1)))"

subsection \<open>Files\<close>

record ScanFileResult =
  File :: File
  New :: bool
  Renamed :: bool
  Updated :: bool

text \<open>The transaction of \<^verbatim>\<open>onNewFile\<close>; \<^verbatim>\<open>Create\<close> writes the identifier into the file.\<close>
definition onNewFile_txn :: "Scanner \<Rightarrow> File \<Rightarrow> string \<Rightarrow> File action" where
  "onNewFile_txn s file path st =
     (case File_Create (Repository s) (db st) file of
        Inl err \<Rightarrow> (Inl (Errorf ''creating file %q: %w'' path (Some err)), st)
      | Inr (created, c) \<Rightarrow>
          (case fireHandlers s created None (st\<lparr>db := c\<rparr>) of
             (Inl err, st1) \<Rightarrow> (Inl err, st1)
           | (Inr u, st1) \<Rightarrow> (Inr created, st1)))"

definition onNewFile :: "Scanner \<Rightarrow> ScannedFile \<Rightarrow> ScanFileResult action" where
  "onNewFile s f st =
     (let baseFile = (BaseFile f)\<lparr>CreatedAt := now st, UpdatedAt := now st\<rparr>;
          path = Path baseFile
      in
      case getFolderID s (filepath_Dir s path) st of
        (Inl err, st1) \<Rightarrow> (Inl (Errorf ''getting parent folder for %q: %w'' path (Some err)), st1)
      | (Inr None, st1) \<Rightarrow> (Inl (Errorf ''parent folder for %q doesn't exist'' path None), st1)
      | (Inr (Some parentFolderID), st1) \<Rightarrow>
          (let baseFile1 = baseFile\<lparr>ParentFolderID := parentFolderID\<rparr> in
           case calculateFingerprints s (FileFS f) baseFile1 path False st1 of
             (Inl err, st2) \<Rightarrow> (Inl err, st2)
           | (Inr fp, st2) \<Rightarrow>
               (let baseFile2 = SetFingerprints s baseFile1 fp in
                case fireDecorators s (FileFS f) \<lparr>Base = baseFile2, Meta = []\<rparr> st2 of
                  (Inl err, st3) \<Rightarrow> (Inl err, st3)
                | (Inr file, st3) \<Rightarrow>
                    (case handleRename s file fp st3 of
                       (Inl err, st4) \<Rightarrow> (Inl err, st4)
                     | (Inr (Some renamed), st4) \<Rightarrow>
                         (Inr \<lparr>File = renamed, New = False, Renamed = True, Updated = False\<rparr>, st4)
                     | (Inr None, st4) \<Rightarrow>
                         (case WithTxn (onNewFile_txn s file path) st4 of
                            (Inl err, st5) \<Rightarrow> (Inl err, st5)
                          | (Inr created, st5) \<Rightarrow>
                              (Inr \<lparr>File = created, New = True, Renamed = False, Updated = False\<rparr>,
                               st5))))))"

text \<open>The transaction of \<^verbatim>\<open>setMissingMetadata\<close> and of \<^verbatim>\<open>setMissingFingerprints\<close>.\<close>
definition updateFile_txn :: "Scanner \<Rightarrow> File \<Rightarrow> string \<Rightarrow> unit action" where
  "updateFile_txn s existing path st =
     (case File_Update (Repository s) (db st) existing of
        Inl err \<Rightarrow> (Inl (Errorf ''updating file %q: %w'' path (Some err)), st)
      | Inr c \<Rightarrow> (Inr (), st\<lparr>db := c\<rparr>))"

definition setMissingMetadata :: "Scanner \<Rightarrow> ScannedFile \<Rightarrow> File \<Rightarrow> File action" where
  "setMissingMetadata s f existing st =
     (let path = Path (Base existing);
          st1 = logger_Infof (''Updating metadata for '' @ path) st;
          existing1 = existing\<lparr>Base := (Base existing)\<lparr>Size := Size (BaseFile f)\<rparr>\<rparr>
      in
      case fireDecorators s (FileFS f) existing1 st1 of
        (Inl err, st2) \<Rightarrow> (Inl err, st2)
      | (Inr existing2, st2) \<Rightarrow>
          (case WithTxn (updateFile_txn s existing2 path) st2 of
             (Inl err, st3) \<Rightarrow> (Inl err, st3)
           | (Inr u, st3) \<Rightarrow> (Inr existing2, st3)))"

definition setMissingFingerprints :: "Scanner \<Rightarrow> ScannedFile \<Rightarrow> File \<Rightarrow> File action" where
  "setMissingFingerprints s f existing st =
     (case calculateFingerprints s (FileFS f) (Base existing) (Path (BaseFile f)) True st of
        (Inl err, st1) \<Rightarrow> (Inl err, st1)
      | (Inr fp, st1) \<Rightarrow>
          if ContentsChanged s fp (Fingerprints (Base existing)) then
            (let existing1 = existing\<lparr>Base := SetFingerprints s (Base existing) fp\<rparr> in
             case WithTxn (updateFile_txn s existing1 (Path (BaseFile f))) st1 of
               (Inl err, st2) \<Rightarrow> (Inl err, st2)
             | (Inr u, st2) \<Rightarrow> (Inr existing1, st2))
          else (Inr existing, st1))"

definition removeOutdatedFingerprints ::
  "File \<Rightarrow> Fingerprint list \<Rightarrow> scan_state \<Rightarrow> File \<times> scan_state" where
  "removeOutdatedFingerprints existing fp st =
     (case Fingerprints_For fp FingerprintTypeOshash of
        None \<Rightarrow> (existing, st)
      | Some oshash \<Rightarrow>
          (case Fingerprints_For (Fingerprints (Base existing)) FingerprintTypeOshash of
             None \<Rightarrow> (existing, st)
           | Some existingOshash \<Rightarrow>
               if existingOshash = oshash then (existing, st)
               else
                 (case Fingerprints_For fp FingerprintTypeMD5 of
                    Some md5 \<Rightarrow> (existing, st)
                  | None \<Rightarrow>
                      (existing\<lparr>Base := (Base existing)\<lparr>Fingerprints :=
                           Fingerprints_Remove (Fingerprints (Base existing)) FingerprintTypeMD5\<rparr>\<rparr>,
                       logger_Infof (''Removing outdated checksum from '' @ Path (Base existing)) st))))"

definition onUnchangedFile :: "Scanner \<Rightarrow> ScannedFile \<Rightarrow> File \<Rightarrow> ScanFileResult action" where
  "onUnchangedFile s f existing st =
     (let isMissingMetdata = isMissingMetadata s f existing in
      case (if isMissingMetdata then setMissingMetadata s f existing st
            else (Inr existing, st)) of
        (Inl err, st1) \<Rightarrow> (Inl err, st1)
      | (Inr existing1, st1) \<Rightarrow>
          (case setMissingFingerprints s f existing1 st1 of
             (Inl err, st2) \<Rightarrow> (Inl err, st2)
           | (Inr existing2, st2) \<Rightarrow>
               (case WithDB (\<lambda>st. (Inr (isHandlerRequired s (db st) existing2), st)) st2 of
                  (Inl err, st3) \<Rightarrow> (Inl err, st3)
                | (Inr handlerRequired, st3) \<Rightarrow>
                    if \<not> handlerRequired then
                      (if isMissingMetdata
                       then (Inr \<lparr>File = existing2, New = False, Renamed = False, Updated = True\<rparr>, st3)
                       else (Inr \<lparr>File = existing2, New = False, Renamed = False, Updated = False\<rparr>, st3))
                    else
                      (case WithTxn (fireHandlers s existing2 None) st3 of
                         (Inl err, st4) \<Rightarrow> (Inl err, st4)
                       | (Inr u, st4) \<Rightarrow>
                           (Inr \<lparr>File = existing2, New = False, Renamed = False, Updated = True\<rparr>,
                            st4)))))"

text \<open>The transaction of \<^verbatim>\<open>onExistingFile\<close>.\<close>
definition onExistingFile_txn :: "Scanner \<Rightarrow> File \<Rightarrow> string \<Rightarrow> BaseFile \<Rightarrow> unit action" where
  "onExistingFile_txn s existing path oldBase st =
     (case File_Update (Repository s) (db st) existing of
        Inl err \<Rightarrow> (Inl (Errorf ''updating file %q: %w'' path (Some err)), st)
      | Inr c \<Rightarrow> fireHandlers s existing (Some \<lparr>Base = oldBase, Meta = []\<rparr>) (st\<lparr>db := c\<rparr>))"

definition onExistingFile ::
  "Scanner \<Rightarrow> ScannedFile \<Rightarrow> File \<Rightarrow> ScanFileResult action" where
  "onExistingFile s f existing st =
     (let base = Base existing;
          path = Path base;
          fileModTime = ModTime (BaseFile f);
          updated = (fileModTime \<noteq> ModTime base \<or> Basename base \<noteq> Basename (BaseFile f));
          forceRescan = Rescan s
      in
      if \<not> updated \<and> \<not> forceRescan then onUnchangedFile s f existing st
      else
        (let oldBase = base;
             st1 = (if \<not> updated \<and> forceRescan
                    then logger_Infof (''rescanning '' @ path) st
                    else logger_Infof (path @ '' has been updated: rescanning'') st);
             base1 = base\<lparr>Basename := Basename (BaseFile f), ModTime := fileModTime,
                       Size := Size (BaseFile f), UpdatedAt := now st\<rparr>
         in
         case calculateFingerprints s (FileFS f) base1 path False st1 of
           (Inl err, st2) \<Rightarrow> (Inl err, st2)
         | (Inr fp, st2) \<Rightarrow>
             (case removeOutdatedFingerprints (existing\<lparr>Base := base1\<rparr>) fp st2 of
                (existing1, st3) \<Rightarrow>
                  (let existing2 = existing1\<lparr>Base := SetFingerprints s (Base existing1) fp\<rparr> in
                   case fireDecorators s (FileFS f) existing2 st3 of
                     (Inl err, st4) \<Rightarrow> (Inl err, st4)
                   | (Inr existing3, st4) \<Rightarrow>
                       (case WithTxn (onExistingFile_txn s existing3 path oldBase) st4 of
                          (Inl err, st5) \<Rightarrow> (Inl err, st5)
                        | (Inr u, st5) \<Rightarrow>
                            (Inr \<lparr>File = existing3, New = False, Renamed = False, Updated = True\<rparr>,
                             st5))))))"

text \<open>The lookup that opens \<^verbatim>\<open>ScanFile\<close>: by path, case-sensitively first, then the
  second pass under the condition the source writes.\<close>
definition ScanFile_find :: "Scanner \<Rightarrow> ScannedFile \<Rightarrow> catalog \<Rightarrow> error + File option" where
  "ScanFile_find s f c =
     (let path = Path (BaseFile f) in
      case File_FindByPath (Repository s) c path True of
        Inl err \<Rightarrow> Inl (Errorf ''checking for existing file %q: %w'' path (Some err))
      | Inr ff \<Rightarrow>
          if ff = None \<and> ZipFileID (BaseFile f) \<noteq> None then
            (if \<not> IsPathCaseSensitive (FileFS f) path then
               (case File_FindByPath (Repository s) c path False of
                  Inl err \<Rightarrow> Inl (Errorf ''checking for existing file %q: %w'' path (Some err))
                | Inr ff1 \<Rightarrow> Inr ff1)
             else Inr ff)
          else Inr ff)"

text \<open>The body \<^verbatim>\<open>ScanFile\<close> runs in its database context.\<close>
definition ScanFile_db :: "Scanner \<Rightarrow> ScannedFile \<Rightarrow> ScanFileResult action" where
  "ScanFile_db s f st =
     (case ScanFile_find s f (db st) of
        Inl err \<Rightarrow> (Inl err, st)
      | Inr None \<Rightarrow> onNewFile s f st
      | Inr (Some ff) \<Rightarrow> onExistingFile s f ff st)"

definition ScanFile :: "Scanner \<Rightarrow> ScannedFile \<Rightarrow> ScanFileResult action" where
  "ScanFile s f st = WithDB (ScanFile_db s f) st"

subsection \<open>Notions the properties are stated with\<close>

text \<open>The outcome of the probe \<^verbatim>\<open>handleRename\<close> runs on a candidate it has kept: the
  candidate counts as missing when its filesystem cannot be opened, when \<^verbatim>\<open>Lstat\<close> fails,
  when its path matches the new path up to case on a case-insensitive filesystem, or
  (if the paths do not match up to case) when the scan filters no longer accept it.\<close>
definition probedMissing :: "Scanner \<Rightarrow> File \<Rightarrow> File \<Rightarrow> bool" where
  "probedMissing s f other =
     (case getFileFS s (Base other) of
        Inl err \<Rightarrow> True
      | Inr fs \<Rightarrow>
          (case Lstat fs (Path (Base other)) of
             None \<Rightarrow> True
           | Some info \<Rightarrow>
               if strings_EqualFold s (Path (Base f)) (Path (Base other))
               then \<not> IsPathCaseSensitive fs (Path (Base other))
               else \<not> AcceptEntry s (Path (Base other)) info))"

text \<open>What a changed file goes through once its row \<open>existing2\<close> carries the new
  fingerprints: the decorators, then the store's \<open>Update\<close> and the handlers with the old
  base, in one transaction. The outcome is the result of the scan and the catalog it
  leaves (the catalog as it was, unless all of it succeeds).\<close>
definition rescanPersist ::
  "Scanner \<Rightarrow> ScannedFile \<Rightarrow> File \<Rightarrow> BaseFile \<Rightarrow> scan_state
     \<Rightarrow> (error + ScanFileResult) \<times> catalog" where
  "rescanPersist s f existing2 oldBase st =
     (case fst (fireDecorators s (FileFS f) existing2 st) of
        Inl err \<Rightarrow> (Inl err, db st)
      | Inr existing3 \<Rightarrow>
          (case File_Update (Repository s) (db st) existing3 of
             Inl err \<Rightarrow> (Inl (Errorf ''updating file %q: %w'' (Path oldBase) (Some err)), db st)
           | Inr c \<Rightarrow>
               (case fst (fireHandlers s existing3 (Some \<lparr>Base = oldBase, Meta = []\<rparr>)
                            (st\<lparr>db := c\<rparr>)) of
                  Inl err \<Rightarrow> (Inl err, db st)
                | Inr u \<Rightarrow>
                    (Inr \<lparr>File = existing3, New = False, Renamed = False, Updated = True\<rparr>,
                     c))))"

text \<open>The repairs \<^verbatim>\<open>onUnchangedFile\<close> makes before it asks whether the handlers are
  required: missing metadata, then missing fingerprints.\<close>
definition onUnchangedFile_repair :: "Scanner \<Rightarrow> ScannedFile \<Rightarrow> File \<Rightarrow> File action" where
  "onUnchangedFile_repair s f existing st =
     (case (if isMissingMetadata s f existing then setMissingMetadata s f existing st
            else (Inr existing, st)) of
        (Inl err, st1) \<Rightarrow> (Inl err, st1)
      | (Inr existing1, st1) \<Rightarrow> setMissingFingerprints s f existing1 st1)"

text \<open>Between two states the trace has only grown, by events that satisfy \<open>P\<close>.\<close>
definition grows :: "(event \<Rightarrow> bool) \<Rightarrow> scan_state \<Rightarrow> scan_state \<Rightarrow> bool" where
  "grows P st st' = (\<exists>evs. trace st' = trace st @ evs \<and> list_all P evs)"

text \<open>An event other than the line that announces a fingerprint recalculation.\<close>
definition noCalcLog :: "event \<Rightarrow> bool" where
  "noCalcLog e = (\<forall>p. e \<noteq> EvLog (''Calculating fingerprints for '' @ p))"

subsection \<open>A catalog in memory, and scenarios\<close>

definition asciiLower :: "char \<Rightarrow> char" where
  "asciiLower c =
     (case map_of (zip ''ABCDEFGHIJKLMNOPQRSTUVWXYZ'' ''abcdefghijklmnopqrstuvwxyz'') c of
        Some l \<Rightarrow> l
      | None \<Rightarrow> c)"

definition asciiEqualFold :: "string \<Rightarrow> string \<Rightarrow> bool" where
  "asciiEqualFold a b = (map asciiLower a = map asciiLower b)"

definition mem_nextFileID :: "catalog \<Rightarrow> FileID" where
  "mem_nextFileID c = Suc (fold max (map (\<lambda>f. ID (Base f)) (files c)) 0)"

definition mem_nextFolderID :: "catalog \<Rightarrow> FolderID" where
  "mem_nextFolderID c = Suc (fold max (map Folder_ID (folders c)) 0)"

text \<open>Modelled from the spec: the catalog gateway of section 4.B (its implementation, the
  sqlite package, is not among the sources), over the rows held in memory. Lookup by path
  returns the first row with that path (up to ASCII case when asked), lookup by
  fingerprint the rows that carry it, \<open>Create\<close> appends the row under a fresh identifier,
  \<open>Update\<close> replaces the row that has the identifier. It serves the scenarios below.\<close>
definition memRepository :: Repository where
  "memRepository =
     \<lparr>File_FindByPath = (\<lambda>c path caseSensitive.
         Inr (find (\<lambda>f. if caseSensitive then Path (Base f) = path
                         else asciiEqualFold (Path (Base f)) path) (files c))),
      File_FindByFingerprint = (\<lambda>c fp.
         Inr (filter (\<lambda>f. fp \<in> set (Fingerprints (Base f))) (files c))),
      File_Create = (\<lambda>c f.
         let created = f\<lparr>Base := (Base f)\<lparr>ID := mem_nextFileID c\<rparr>\<rparr>
         in Inr (created, c\<lparr>files := files c @ [created]\<rparr>)),
      File_Update = (\<lambda>c f.
         Inr (c\<lparr>files := map (\<lambda>x. if ID (Base x) = ID (Base f) then f else x) (files c)\<rparr>)),
      Folder_FindByPath = (\<lambda>c path caseSensitive.
         Inr (find (\<lambda>d. if caseSensitive then Folder_Path d = path
                         else asciiEqualFold (Folder_Path d) path) (folders c))),
      Folder_Create = (\<lambda>c d.
         let created = d\<lparr>Folder_ID := mem_nextFolderID c\<rparr>
         in Inr (created, c\<lparr>folders := folders c @ [created]\<rparr>)),
      Folder_Update = (\<lambda>c d.
         Inr (c\<lparr>folders := map (\<lambda>x. if Folder_ID x = Folder_ID d then d else x) (folders c)\<rparr>))\<rparr>"

text \<open>A filesystem on which exactly the listed paths exist.\<close>
definition demoFS :: "string list \<Rightarrow> bool \<Rightarrow> fs" where
  "demoFS present caseSensitive =
     MkFS (\<lambda>p. if p \<in> set present
                then Some \<lparr>info_Size = 100, info_ModTime = 200, info_IsDir = False\<rparr> else None)
          (\<lambda>p. caseSensitive)
          (\<lambda>p n. None)"

text \<open>The directory of a clean absolute path with at least two elements.\<close>
definition demoDir :: "string \<Rightarrow> string" where
  "demoDir p = rev (tl (dropWhile (\<lambda>c. c \<noteq> CHR ''/'') (rev p)))"

definition demoExt :: "string \<Rightarrow> string" where
  "demoExt p = CHR ''.'' # rev (takeWhile (\<lambda>c. c \<noteq> CHR ''.'') (rev p))"

text \<open>A scanner over the catalog in memory: no filters, decorators or handlers, a handler
  filter that accepts nothing, a calculator that returns \<open>fps\<close>, and fingerprints set by
  overwriting.\<close>
definition demoScanner :: "fs \<Rightarrow> Fingerprint list \<Rightarrow> Scanner" where
  "demoScanner fsys fps =
     \<lparr>FS = fsys, Repository = memRepository,
      FingerprintCalculator = (\<lambda>f fs path useExisting. Inr fps),
      ZipFileExtensions = [''zip''], ScanFilters = [],
      HandlerRequiredFilters = [(\<lambda>c f. False)],
      FileDecorators = [], FileHandlers = [], Rescan = False,
      detectFolderMove = (\<lambda>c f. Inr None),
      correctSubFolderHierarchy = (\<lambda>c d. Inr c),
      transferZipHierarchy = (\<lambda>c i old new. Inr c),
      SetFingerprints = (\<lambda>b fp. b\<lparr>Fingerprints := fp\<rparr>),
      ContentsChanged = (\<lambda>a b. False),
      filepath_Dir = demoDir,
      filepath_Ext = demoExt,
      strings_EqualFold = asciiEqualFold\<rparr>"

definition demoFile ::
  "FileID \<Rightarrow> string \<Rightarrow> string \<Rightarrow> FolderID \<Rightarrow> FileID option \<Rightarrow> time \<Rightarrow> Fingerprint list \<Rightarrow> time
     \<Rightarrow> BaseFile" where
  "demoFile i p b parent z m fps created =
     \<lparr>ID = i, Path = p, Basename = b, ParentFolderID = parent, ZipFileID = z, ZipFile = None,
      ModTime = m, Size = 100, Fingerprints = fps, CreatedAt = created, UpdatedAt = created\<rparr>"

definition demoFolder :: "FolderID \<Rightarrow> string \<Rightarrow> FolderID option \<Rightarrow> Folder" where
  "demoFolder i p parent =
     \<lparr>Folder_ID = i, Folder_Path = p, Folder_ParentFolderID = parent, Folder_ZipFileID = None,
      Folder_ModTime = 50, Folder_CreatedAt = 50, Folder_UpdatedAt = 50\<rparr>"

definition demoInfo :: FileInfo where
  "demoInfo = \<lparr>info_Size = 100, info_ModTime = 200, info_IsDir = False\<rparr>"

definition demoState :: "catalog \<Rightarrow> scan_state" where
  "demoState c =
     \<lparr>db = c, folderPathToID = Map.empty, trace = [], postCommitHooks = [], now = 1000\<rparr>"

definition H1 :: Fingerprint where
  "H1 = \<lparr>Type = ''oshash'', Fingerprint = ''h1''\<rparr>"

definition H2 :: Fingerprint where
  "H2 = \<lparr>Type = ''oshash'', Fingerprint = ''h2''\<rparr>"

definition M1 :: Fingerprint where
  "M1 = \<lparr>Type = ''md5'', Fingerprint = ''m1''\<rparr>"

text \<open>The catalog after a first scan of \<^verbatim>\<open>/lib/a/x.mp4\<close>, whose row carries an oshash and
  an MD5; the folders \<^verbatim>\<open>/lib\<close>, \<^verbatim>\<open>/lib/a\<close> and \<^verbatim>\<open>/lib/b\<close> are known.\<close>
definition movedCatalog :: catalog where
  "movedCatalog =
     \<lparr>files = [\<lparr>Base = demoFile 7 ''/lib/a/x.mp4'' ''x.mp4'' 2 None 150 [H1, M1] 100,
                 Meta = ''video''\<rparr>],
      folders = [demoFolder 1 ''/lib'' None, demoFolder 2 ''/lib/a'' (Some 1),
                 demoFolder 3 ''/lib/b'' (Some 1)]\<rparr>"

text \<open>The file found at \<^verbatim>\<open>/lib/b/x.mp4\<close> once it has been moved there.\<close>
definition movedScanned :: ScannedFile where
  "movedScanned =
     \<lparr>BaseFile = demoFile 0 ''/lib/b/x.mp4'' ''x.mp4'' 0 None 200 [] 0,
      FileFS = demoFS [''/lib/b/x.mp4''] True, Info = demoInfo\<rparr>"

definition demoScanned :: "string \<Rightarrow> string \<Rightarrow> FileID option \<Rightarrow> time \<Rightarrow> fs \<Rightarrow> ScannedFile" where
  "demoScanned p b z m fsys =
     \<lparr>BaseFile = demoFile 0 p b 0 z m [] 0, FileFS = fsys, Info = demoInfo\<rparr>"

text \<open>A catalog with one file outside any archive, and the folder of the archive
  \<^verbatim>\<open>/lib/pack.zip\<close>, whose file has the identifier 5.\<close>
definition zipCatalog :: catalog where
  "zipCatalog =
     \<lparr>files = [\<lparr>Base = demoFile 7 ''/lib/a/x.mp4'' ''x.mp4'' 2 None 150 [H1] 100,
                 Meta = ''video''\<rparr>],
      folders = [demoFolder 1 ''/lib'' None, demoFolder 2 ''/lib/a'' (Some 1),
                 demoFolder 4 ''/lib/pack.zip'' (Some 1)]\<rparr>"

text \<open>The row of \<^verbatim>\<open>/lib/a/x.mp4\<close> once the scan has found the file at \<^verbatim>\<open>/lib/b/x.mp4\<close>,
  and the result of that scan.\<close>
definition movedRow :: File where
  "movedRow =
     \<lparr>Base = (demoFile 7 ''/lib/b/x.mp4'' ''x.mp4'' 3 None 200 [H1, M1] 100)\<lparr>UpdatedAt := 1000\<rparr>,
      Meta = ''video''\<rparr>"

definition movedResult :: ScanFileResult where
  "movedResult = \<lparr>File = movedRow, New = False, Renamed = True, Updated = False\<rparr>"

text \<open>A catalog that knows \<^verbatim>\<open>/lib/A/x.mp4\<close>, and a case-insensitive filesystem on which
  the file is now named \<^verbatim>\<open>X.MP4\<close> (the old spelling still resolves).\<close>
definition caseCatalog :: catalog where
  "caseCatalog =
     \<lparr>files = [\<lparr>Base = demoFile 7 ''/lib/A/x.mp4'' ''x.mp4'' 2 None 150 [H1] 100,
                 Meta = ''video''\<rparr>],
      folders = [demoFolder 1 ''/lib'' None, demoFolder 2 ''/lib/A'' (Some 1)]\<rparr>"

definition caseFS :: fs where
  "caseFS = demoFS [''/lib/A/X.MP4'', ''/lib/A/x.mp4'', ''/lib/A'', ''/lib/a''] False"

text \<open>A store whose folder writes fail, as they do while the database is locked.\<close>
definition lockedRepository :: Repository where
  "lockedRepository =
     memRepository\<lparr>Folder_Create := (\<lambda>c d. Inl (Error ''database is locked'')),
                    Folder_Update := (\<lambda>c d. Inl (Error ''database is locked''))\<rparr>"

text \<open>A scanner over that store whose move detection answers with the folder \<^verbatim>\<open>/lib/a\<close>.\<close>
definition movingScanner :: Scanner where
  "movingScanner =
     (demoScanner (demoFS [''/lib/c''] True) [])
       \<lparr>Repository := lockedRepository,
        detectFolderMove := (\<lambda>c f. Inr (Some (demoFolder 2 ''/lib/a'' (Some 1))))\<rparr>"

text \<open>Fingerprints set per type: a fingerprint replaces the one stored for its type, or
  joins the set; the other types stay.\<close>
fun demoSetFingerprint :: "Fingerprint list \<Rightarrow> Fingerprint \<Rightarrow> Fingerprint list" where
  "demoSetFingerprint [] fp = [fp]"
| "demoSetFingerprint (x # xs) fp =
     (if Type x = Type fp then fp # xs else x # demoSetFingerprint xs fp)"

definition demoSetFingerprints :: "BaseFile \<Rightarrow> Fingerprint list \<Rightarrow> BaseFile" where
  "demoSetFingerprints b fps = b\<lparr>Fingerprints := foldl demoSetFingerprint (Fingerprints b) fps\<rparr>"

section \<open>Properties\<close>

subsection \<open>Fingerprint sets\<close>

lemma Fingerprints_For_Type: "Fingerprints_For fps t = Some x \<Longrightarrow> Type x = t"
  by (induction fps) (auto split: if_splits)

lemma Fingerprints_For_Remove_same: "Fingerprints_For (Fingerprints_Remove fps t) t = None"
  by (induction fps) auto

lemma Fingerprints_For_Remove_other:
  "t' \<noteq> t \<Longrightarrow> Fingerprints_For (Fingerprints_Remove fps t) t' = Fingerprints_For fps t'"
  by (induction fps) auto

lemma removeOutdatedFingerprints_file:
  "fst (removeOutdatedFingerprints existing fp st) =
     (if Fingerprints_For fp FingerprintTypeOshash \<noteq> None
         \<and> Fingerprints_For (Fingerprints (Base existing)) FingerprintTypeOshash \<noteq> None
         \<and> map_option Fingerprint (Fingerprints_For (Fingerprints (Base existing)) FingerprintTypeOshash)
             \<noteq> map_option Fingerprint (Fingerprints_For fp FingerprintTypeOshash)
         \<and> Fingerprints_For fp FingerprintTypeMD5 = None
      then existing\<lparr>Base := (Base existing)\<lparr>Fingerprints :=
              Fingerprints_Remove (Fingerprints (Base existing)) FingerprintTypeMD5\<rparr>\<rparr>
      else existing)"
  by (auto simp: removeOutdatedFingerprints_def split: option.splits dest!: Fingerprints_For_Type)

text \<open>What \<^verbatim>\<open>removeOutdatedFingerprints\<close> leaves of the stored set: without its MD5 when the
  new set has an oshash that differs from the stored one and no MD5, untouched otherwise.\<close>
lemma removeOutdatedFingerprints_md5:
  "(let stored = Fingerprints (Base existing);
        stale = (Fingerprints_For fp FingerprintTypeOshash \<noteq> None
                 \<and> Fingerprints_For stored FingerprintTypeOshash \<noteq> None
                 \<and> map_option Fingerprint (Fingerprints_For stored FingerprintTypeOshash)
                     \<noteq> map_option Fingerprint (Fingerprints_For fp FingerprintTypeOshash)
                 \<and> Fingerprints_For fp FingerprintTypeMD5 = None);
        existing' = fst (removeOutdatedFingerprints existing fp st)
    in existing' =
         (if stale
          then existing\<lparr>Base := (Base existing)\<lparr>Fingerprints :=
                 Fingerprints_Remove stored FingerprintTypeMD5\<rparr>\<rparr>
          else existing)
       \<and> Fingerprints_For (Fingerprints (Base existing')) FingerprintTypeMD5 =
           (if stale then None else Fingerprints_For stored FingerprintTypeMD5)
       \<and> Fingerprints_For (Fingerprints (Base existing')) FingerprintTypeOshash =
           Fingerprints_For stored FingerprintTypeOshash)"
  unfolding Let_def removeOutdatedFingerprints_file
  by (simp add: Fingerprints_For_Remove_same Fingerprints_For_Remove_other
        FingerprintTypeOshash_def FingerprintTypeMD5_def)

subsection \<open>Evaluating the scenarios\<close>

lemmas demo_defs = demoScanner_def demoScanned_def demoState_def movedCatalog_def movedScanned_def
  zipCatalog_def memRepository_def demoFile_def demoFolder_def demoFS_def demoDir_def demoExt_def
  demoInfo_def H1_def H2_def M1_def asciiEqualFold_def asciiLower_def mem_nextFileID_def
  mem_nextFolderID_def movedRow_def movedResult_def caseCatalog_def caseFS_def
  lockedRepository_def movingScanner_def demoSetFingerprints_def

lemmas scan_defs = ScanFile_def WithDB_def ScanFile_db_def ScanFile_find_def onNewFile_def
  getFolderID_def calculateFingerprints_def logger_Infof_def logger_Debugf_def emit_def
  fireDecorators_def handleRename_def handleRename_update_def WithTxn_def handleRename_txn_def
  IsZipFile_def fireHandlers_def getFileFS_def onNewFile_txn_def AcceptEntry_def
  onExistingFile_def onUnchangedFile_def isMissingMetadata_def setMissingFingerprints_def
  setMissingMetadata_def isHandlerRequired_def updateFile_txn_def onExistingFile_txn_def
  removeOutdatedFingerprints_def FingerprintTypeOshash_def FingerprintTypeMD5_def
  ScanFolder_def ScanFolder_txn_def ScanFolder_find_def onNewFolder_def onExistingFolder_def
  handleFolderRename_def AddPostCommitHook_def

subsection \<open>Rename candidates and the archive they are in\<close>

lemma handleRename_missing_filter:
  "fst (handleRename_missing s f others missing st) =
     missing @ filter (\<lambda>other. (ZipFileID (Base other) = None
                                 \<or> ZipFileID (Base other) = ZipFileID (Base f))
                          \<and> probedMissing s f other) others"
proof (induction others arbitrary: missing st)
  case Nil
  then show ?case by simp
next
  case (Cons other others)
  show ?case
    by (cases "ZipFileID (Base other)"; cases "ZipFileID (Base f)")
       (auto simp: Cons.IH probedMissing_def Let_def split: sum.splits option.splits)
qed

lemma handleRename_missing_skip:
  "handleRename_missing s f others missing st =
   handleRename_missing s f
     (filter (\<lambda>other. ZipFileID (Base other) = None
                      \<or> ZipFileID (Base other) = ZipFileID (Base f)) others)
     missing st"
proof (induction others arbitrary: missing st)
  case Nil
  then show ?case by simp
next
  case (Cons other others)
  show ?case
    by (cases "ZipFileID (Base other)"; cases "ZipFileID (Base f)")
       (auto simp: Cons.IH Let_def split: sum.splits option.splits)
qed

text \<open>
  C4, as the code has it. During rename detection a catalog file that shares a
  fingerprint with the scanned file is kept as a rename candidate iff it has no
  \<open>zip_file_id\<close>, or it carries the \<open>zip_file_id\<close> of the scanned file. Every other candidate
  is skipped before the probe: the loop returns the same list and leaves the same state
  as on the candidates kept alone, and the missing files are the kept candidates the
  probe finds missing, in order.
\<close>
theorem handleRename_missing_archive_scope:
  "handleRename_missing s f others [] st =
     handleRename_missing s f
       (filter (\<lambda>other. ZipFileID (Base other) = None
                        \<or> ZipFileID (Base other) = ZipFileID (Base f)) others) [] st
   \<and> fst (handleRename_missing s f others [] st) =
       filter (\<lambda>other. (ZipFileID (Base other) = None
                         \<or> ZipFileID (Base other) = ZipFileID (Base f))
                        \<and> probedMissing s f other) others"
  using handleRename_missing_skip [of s f others "[]" st]
    handleRename_missing_filter [of s f others "[]" st]
  by simp

text \<open>
  C4 as stated fails: a file scanned inside the archive with identifier 5 shares its
  oshash with a catalog file that has no \<open>zip_file_id\<close> and is gone from disk. The two are
  not in the same archive scope, yet the candidate is kept and the scan ends as a rename
  of row 7.
\<close>
theorem rename_across_archive_scope:
  "map_sum id (\<lambda>r. (Renamed r, ID (Base (File r)), ZipFileID (Base (File r))))
     (fst (ScanFile (demoScanner (demoFS [] True) [H1])
             (demoScanned ''/lib/pack.zip/x.mp4'' ''x.mp4'' (Some 5) 200
                (demoFS [''/lib/pack.zip/x.mp4''] True))
             (demoState zipCatalog)))
     = Inr (True, 7, Some 5)
   \<and> map (\<lambda>f. ZipFileID (Base f)) (files zipCatalog) = [None]"
  by (simp add: scan_defs demo_defs Let_def)

subsection \<open>The flags of a scan result\<close>

lemma fireHandlers_loop_db: "db (snd (fireHandlers_loop hs f old st)) = db st"
  by (induction hs arbitrary: st) (auto simp: emit_def Let_def split: option.splits)

lemma WithTxn_fireHandlers_db:
  "WithTxn (fireHandlers s f old) st = (Inr u, st') \<Longrightarrow> db st' = db st"
  using fireHandlers_loop_db [of "FileHandlers s" f old "st\<lparr>postCommitHooks := []\<rparr>"]
  by (auto simp: WithTxn_def fireHandlers_def split: prod.splits sum.splits)

lemma onNewFile_flags:
  "onNewFile s f st = (Inr r, st') \<Longrightarrow> \<not> Updated r \<and> (New r \<longleftrightarrow> \<not> Renamed r)"
  by (auto simp: onNewFile_def Let_def split: prod.splits sum.splits option.splits)

lemma onUnchangedFile_flags:
  assumes "onUnchangedFile s f existing st = (Inr r, st')"
  shows "\<not> New r \<and> \<not> Renamed r
       \<and> (Updated r \<longleftrightarrow> isMissingMetadata s f existing \<or> isHandlerRequired s (db st') (File r))"
  using assms
  by (auto simp: onUnchangedFile_def WithDB_def Let_def
        dest: WithTxn_fireHandlers_db
        split: prod.splits sum.splits option.splits if_splits)

lemma onExistingFile_flags:
  assumes "onExistingFile s f existing st = (Inr r, st')"
  shows "\<not> New r \<and> \<not> Renamed r
       \<and> (Updated r \<longleftrightarrow>
            ModTime (BaseFile f) \<noteq> ModTime (Base existing)
            \<or> Basename (Base existing) \<noteq> Basename (BaseFile f)
            \<or> Rescan s
            \<or> isMissingMetadata s f existing
            \<or> isHandlerRequired s (db st') (File r))"
proof (cases "ModTime (BaseFile f) = ModTime (Base existing)
              \<and> Basename (Base existing) = Basename (BaseFile f) \<and> \<not> Rescan s")
  case True
  then have "onUnchangedFile s f existing st = (Inr r, st')"
    using assms by (simp add: onExistingFile_def Let_def)
  from onUnchangedFile_flags [OF this] True show ?thesis by simp
next
  case False
  then show ?thesis
    using assms
    by (auto simp: onExistingFile_def Let_def split: prod.splits sum.splits if_splits)
qed

subsection \<open>A file whose parent folder is unknown\<close>

text \<open>
  C10. If the lookup by path finds no row for the scanned file and the directory of its
  path has no folder, neither in the path-to-id cache nor in the catalog, \<^verbatim>\<open>ScanFile\<close>
  returns the error that the parent folder does not exist and leaves the state as it was:
  nothing is logged (so no fingerprint is calculated), no decorator or handler runs, no
  rename is looked for, and the catalog has no row created or updated.
\<close>
theorem ScanFile_parent_folder_missing:
  assumes "ScanFile_find s f (db st) = Inr None"
    and "folderPathToID st (filepath_Dir s (Path (BaseFile f))) = None"
    and "Folder_FindByPath (Repository s) (db st) (filepath_Dir s (Path (BaseFile f))) True
           = Inr None"
  shows "ScanFile s f st =
           (Inl (Errorf ''parent folder for %q doesn't exist'' (Path (BaseFile f)) None), st)"
  using assms
  by (simp add: ScanFile_def WithDB_def ScanFile_db_def onNewFile_def getFolderID_def Let_def)

theorem ScanFile_parent_folder_missing_witness:
  "ScanFile (demoScanner (demoFS [''/lib/c/y.mp4''] True) [H1])
     (demoScanned ''/lib/c/y.mp4'' ''y.mp4'' None 200 (demoFS [''/lib/c/y.mp4''] True))
     (demoState movedCatalog)
   = (Inl (Errorf ''parent folder for %q doesn't exist'' ''/lib/c/y.mp4'' None),
      demoState movedCatalog)"
proof -
  let ?S = "demoScanner (demoFS [''/lib/c/y.mp4''] True) [H1]"
  let ?F = "demoScanned ''/lib/c/y.mp4'' ''y.mp4'' None 200 (demoFS [''/lib/c/y.mp4''] True)"
  have a: "ScanFile_find ?S ?F (db (demoState movedCatalog)) = Inr None"
    by (simp add: ScanFile_find_def demo_defs Let_def)
  have b: "folderPathToID (demoState movedCatalog) (filepath_Dir ?S (Path (BaseFile ?F))) = None"
    by (simp add: demo_defs)
  have c: "Folder_FindByPath (Repository ?S) (db (demoState movedCatalog))
             (filepath_Dir ?S (Path (BaseFile ?F))) True = Inr None"
    by (simp add: demo_defs)
  have p: "Path (BaseFile ?F) = ''/lib/c/y.mp4''"
    by (simp add: demo_defs)
  show ?thesis
    using ScanFile_parent_folder_missing [OF a b c] unfolding p .
qed

subsection \<open>Folders inside an archive\<close>

lemma getFolderID_frame:
  "db (snd (getFolderID s p st)) = db st \<and> trace (snd (getFolderID s p st)) = trace st
   \<and> now (snd (getFolderID s p st)) = now st
   \<and> postCommitHooks (snd (getFolderID s p st)) = postCommitHooks st"
  by (simp add: getFolderID_def split: option.splits sum.splits)

lemma getFolderID_result:
  "db st0 = db st \<Longrightarrow> folderPathToID st0 = folderPathToID st \<Longrightarrow>
   fst (getFolderID s p st0) = fst (getFolderID s p st)"
  by (simp add: getFolderID_def split: option.splits sum.splits)

text \<open>
  C9. For a scanned folder inside an archive (a \<open>zip_file_id\<close> that is not null) that the
  lookup by path does not find, \<^verbatim>\<open>ScanFolder\<close> never attempts move detection: whenever the
  parent lookup and the store's \<open>Create\<close> succeed it returns the row \<open>Create\<close> made of the
  new folder, the catalog is the one \<open>Create\<close> left, and all it emits is the line of the
  post-commit hook; no call of \<^verbatim>\<open>detectFolderMove\<close> is among its events, and the
  result does not depend on what \<^verbatim>\<open>detectFolderMove\<close> would answer.
\<close>
theorem ScanFolder_in_archive_creates:
  assumes zip: "ZipFileID (BaseFile file) \<noteq> None"
    and nofolder: "Folder_FindByPath (Repository s) (db st) (Path (BaseFile file)) True = Inr None"
    and parent: "(if filepath_Dir s (Path (BaseFile file)) \<noteq> ''.''
                  then fst (getFolderID s (filepath_Dir s (Path (BaseFile file))) st)
                  else Inr None) = Inr parentFolderID"
    and create: "Folder_Create (Repository s) (db st)
                   \<lparr>Folder_ID = 0, Folder_Path = Path (BaseFile file),
                    Folder_ParentFolderID = parentFolderID,
                    Folder_ZipFileID = ZipFileID (BaseFile file),
                    Folder_ModTime = ModTime (BaseFile file),
                    Folder_CreatedAt = now st, Folder_UpdatedAt = now st\<rparr> = Inr (created, c)"
  shows "fst (ScanFolder s file st) = Inr created
       \<and> db (snd (ScanFolder s file st)) = c
       \<and> trace (snd (ScanFolder s file st)) =
           trace st @ [EvLog (Path (BaseFile file) @ '' doesn't exist. Creating new folder entry...'')]"
proof -
  let ?st0 = "st\<lparr>postCommitHooks := []\<rparr>"
  let ?dir = "filepath_Dir s (Path (BaseFile file))"
  let ?p = "if ?dir \<noteq> ''.'' then getFolderID s ?dir ?st0 else (Inr None, ?st0)"
  have find: "ScanFolder_find s file (db st) = Inr None"
    using zip nofolder by (auto simp: ScanFolder_find_def Let_def)
  have hfr: "handleFolderRename s file ?st0 = (Inr None, ?st0)"
    using zip by (simp add: handleFolderRename_def)
  have p1: "fst ?p = Inr parentFolderID"
    using parent getFolderID_result [of ?st0 st s ?dir] by (simp split: if_splits)
  have p2: "db (snd ?p) = db st \<and> trace (snd ?p) = trace st \<and> now (snd ?p) = now st
            \<and> postCommitHooks (snd ?p) = []"
    using getFolderID_frame [of s ?dir ?st0] by simp
  obtain st1 where p: "?p = (Inr parentFolderID, st1)"
    using p1 by (cases ?p) simp
  have g: "db st1 = db st \<and> trace st1 = trace st \<and> now st1 = now st \<and> postCommitHooks st1 = []"
    using p2 p by simp
  have new: "onNewFolder s file ?st0 =
      (Inr created,
       (AddPostCommitHook (Path (BaseFile file) @ '' doesn't exist. Creating new folder entry...'') st1)
         \<lparr>db := c\<rparr>)"
    unfolding onNewFolder_def Let_def hfr
    using p create g by (simp add: AddPostCommitHook_def)
  show ?thesis
    using g by (simp add: ScanFolder_def WithTxn_def ScanFolder_txn_def find new AddPostCommitHook_def)
qed

text \<open>The folder \<^verbatim>\<open>inside\<close> of the archive \<^verbatim>\<open>/lib/pack.zip\<close>, scanned for the first time by
  a scanner whose move detection would answer with the folder \<^verbatim>\<open>/lib/a\<close>.\<close>
theorem ScanFolder_in_archive_creates_witness:
  "fst (ScanFolder
          ((demoScanner (demoFS [] True) [])
             \<lparr>detectFolderMove := (\<lambda>c f. Inr (Some (demoFolder 2 ''/lib/a'' (Some 1))))\<rparr>)
          (demoScanned ''/lib/pack.zip/inside'' ''inside'' (Some 5) 200 (demoFS [] True))
          (demoState zipCatalog))
     = Inr \<lparr>Folder_ID = 5, Folder_Path = ''/lib/pack.zip/inside'',
            Folder_ParentFolderID = Some 4, Folder_ZipFileID = Some 5, Folder_ModTime = 200,
            Folder_CreatedAt = 1000, Folder_UpdatedAt = 1000\<rparr>
   \<and> trace (snd (ScanFolder
          ((demoScanner (demoFS [] True) [])
             \<lparr>detectFolderMove := (\<lambda>c f. Inr (Some (demoFolder 2 ''/lib/a'' (Some 1))))\<rparr>)
          (demoScanned ''/lib/pack.zip/inside'' ''inside'' (Some 5) 200 (demoFS [] True))
          (demoState zipCatalog)))
     = [EvLog ''/lib/pack.zip/inside doesn't exist. Creating new folder entry...'']"
proof -
  let ?S = "(demoScanner (demoFS [] True) [])
             \<lparr>detectFolderMove := (\<lambda>c f. Inr (Some (demoFolder 2 ''/lib/a'' (Some 1))))\<rparr>"
  let ?F = "demoScanned ''/lib/pack.zip/inside'' ''inside'' (Some 5) 200 (demoFS [] True)"
  let ?created = "\<lparr>Folder_ID = 5, Folder_Path = ''/lib/pack.zip/inside'',
            Folder_ParentFolderID = Some 4, Folder_ZipFileID = Some 5, Folder_ModTime = 200,
            Folder_CreatedAt = 1000, Folder_UpdatedAt = 1000\<rparr>"
  have a: "ZipFileID (BaseFile ?F) \<noteq> None"
    by (simp add: demo_defs)
  have b: "Folder_FindByPath (Repository ?S) (db (demoState zipCatalog)) (Path (BaseFile ?F)) True
             = Inr None"
    by (simp add: demo_defs)
  have c: "(if filepath_Dir ?S (Path (BaseFile ?F)) \<noteq> ''.''
            then fst (getFolderID ?S (filepath_Dir ?S (Path (BaseFile ?F))) (demoState zipCatalog))
            else Inr None) = Inr (Some 4)"
    by (simp add: getFolderID_def demo_defs)
  have d: "Folder_Create (Repository ?S) (db (demoState zipCatalog))
             \<lparr>Folder_ID = 0, Folder_Path = Path (BaseFile ?F),
              Folder_ParentFolderID = Some 4,
              Folder_ZipFileID = ZipFileID (BaseFile ?F),
              Folder_ModTime = ModTime (BaseFile ?F),
              Folder_CreatedAt = now (demoState zipCatalog),
              Folder_UpdatedAt = now (demoState zipCatalog)\<rparr>
           = Inr (?created,
                  \<lparr>files = files zipCatalog, folders = folders zipCatalog @ [?created]\<rparr>)"
    by (simp add: demo_defs Let_def)
  show ?thesis
    using ScanFolder_in_archive_creates [OF a b c d]
    by (simp add: demo_defs)
qed

subsection \<open>Renamed files\<close>

lemma fireDecorators_loop_db:
  "db (snd (fireDecorators_loop ds fs f st)) = db st"
  by (induction ds arbitrary: f st) (auto simp: emit_def Let_def split: sum.splits)

lemma fireDecorators_loop_result:
  "fst (fireDecorators_loop ds fs f st) = fst (fireDecorators_loop ds fs f st0)"
  by (induction ds arbitrary: f st st0) (auto simp: Let_def split: sum.splits)

lemma handleRename_missing_db:
  "db (snd (handleRename_missing s f others missing st)) = db st"
proof (induction others arbitrary: missing st)
  case Nil
  then show ?case by simp
next
  case (Cons other others)
  show ?case
    by (cases "ZipFileID (Base other)"; cases "ZipFileID (Base f)")
       (auto simp: Cons.IH Let_def logger_Debugf_def emit_def split: sum.splits option.splits)
qed

lemma handleRename_missing_result:
  "fst (handleRename_missing s f others missing st) =
   fst (handleRename_missing s f others missing st0)"
  by (simp add: handleRename_missing_filter)

lemma handleRename_txn_success:
  assumes "WithTxn (handleRename_txn s updated other oldPath newPath) st = (Inr u, st')"
  shows "\<exists>c. File_Update (Repository s) (db st) updated = Inr c
           \<and> (if IsZipFile s (Basename (Base updated))
               then transferZipHierarchy s c (ID (Base updated)) oldPath newPath
               else Inr c) = Inr (db st')"
proof -
  let ?st0 = "st\<lparr>postCommitHooks := []\<rparr>"
  obtain stb where b: "handleRename_txn s updated other oldPath newPath ?st0 = (Inr u, stb)"
    and d: "db st' = db stb"
    using assms by (auto simp: WithTxn_def split: prod.splits sum.splits)
  from b obtain c c1 where u: "File_Update (Repository s) (db st) updated = Inr c"
    and z: "(if IsZipFile s (Basename (Base updated))
             then transferZipHierarchy s c (ID (Base updated)) oldPath newPath
             else Inr c) = Inr c1"
    and h: "fireHandlers s updated (Some other) (?st0\<lparr>db := c1\<rparr>) = (Inr u, stb)"
    by (auto simp: handleRename_txn_def split: sum.splits)
  have "db stb = c1"
    using h fireHandlers_loop_db [of "FileHandlers s" updated "Some other" "?st0\<lparr>db := c1\<rparr>"]
    by (simp add: fireHandlers_def)
  with u z d show ?thesis by simp
qed

text \<open>What a successful scan returns and writes once rename detection has found a first
  missing candidate \<open>other\<close> for the decorated file \<open>file\<close>.\<close>
lemma ScanFile_rename_core:
  assumes find: "ScanFile_find s f (db st) = Inr None"
    and parent: "fst (getFolderID s (filepath_Dir s (Path (BaseFile f))) st)
                   = Inr (Some parentFolderID)"
    and fps: "FingerprintCalculator s
                ((BaseFile f)\<lparr>CreatedAt := now st, UpdatedAt := now st,
                              ParentFolderID := parentFolderID\<rparr>)
                (FileFS f) (Path (BaseFile f)) False = Inr fp"
    and deco: "fst (fireDecorators s (FileFS f)
                 \<lparr>Base = SetFingerprints s
                           ((BaseFile f)\<lparr>CreatedAt := now st, UpdatedAt := now st,
                                         ParentFolderID := parentFolderID\<rparr>) fp,
                  Meta = []\<rparr> st) = Inr file"
    and others: "handleRename_others s (db st) fp [] = Inr others"
    and missing: "fst (handleRename_missing s file others [] st) = other # rest"
    and ok: "ScanFile s f st = (Inr r, st')"
  shows "r = \<lparr>File = other\<lparr>Base := (Base file)\<lparr>ID := ID (Base other),
                               CreatedAt := CreatedAt (Base other),
                               Fingerprints := Fingerprints (Base other)\<rparr>\<rparr>,
              New = False, Renamed = True, Updated = False\<rparr>
       \<and> (\<exists>c. File_Update (Repository s) (db st) (File r) = Inr c
              \<and> (if IsZipFile s (Basename (Base (File r)))
                  then transferZipHierarchy s c (ID (Base (File r)))
                         (Path (Base other)) (Path (Base file))
                  else Inr c) = Inr (db st'))"
proof -
  let ?path = "Path (BaseFile f)"
  let ?dir = "filepath_Dir s ?path"
  let ?base1 = "(BaseFile f)\<lparr>CreatedAt := now st, UpdatedAt := now st,
                   ParentFolderID := parentFolderID\<rparr>"
  let ?file0 = "\<lparr>Base = SetFingerprints s ?base1 fp, Meta = []\<rparr>"
  let ?updated = "other\<lparr>Base := (Base file)\<lparr>ID := ID (Base other),
                    CreatedAt := CreatedAt (Base other),
                    Fingerprints := Fingerprints (Base other)\<rparr>\<rparr>"
  obtain st1 where g: "getFolderID s ?dir st = (Inr (Some parentFolderID), st1)"
    using parent by (cases "getFolderID s ?dir st") simp
  have d1: "db st1 = db st"
    using getFolderID_frame [of s ?dir st] g by simp
  obtain st2 where c: "calculateFingerprints s (FileFS f) ?base1 ?path False st1 = (Inr fp, st2)"
    and d2: "db st2 = db st1"
    using fps by (simp add: calculateFingerprints_def logger_Infof_def emit_def)
  obtain st3 where e: "fireDecorators s (FileFS f) ?file0 st2 = (Inr file, st3)"
    using deco fireDecorators_loop_result [of "FileDecorators s" "FileFS f" ?file0 st2 st]
    by (cases "fireDecorators s (FileFS f) ?file0 st2") (simp add: fireDecorators_def)
  have d3: "db st3 = db st2"
    using e fireDecorators_loop_db [of "FileDecorators s" "FileFS f" ?file0 st2]
    by (simp add: fireDecorators_def)
  obtain st4 where m: "handleRename_missing s file others [] st3 = (other # rest, st4)"
    using missing handleRename_missing_result [of s "file" others "[]" st3 st]
    by (cases "handleRename_missing s file others [] st3") simp
  have d4: "db st4 = db st3"
    using m handleRename_missing_db [of s "file" others "[]" st3] by simp
  have hr: "handleRename s file fp st3 = handleRename_update s file other st4"
    using others m d1 d2 d3 by (simp add: handleRename_def)
  let ?st5 = "logger_Infof (Path (Base other) @ '' moved to '' @ Path (Base file)
                @ ''. Updating path...'') st4"
  let ?txn = "WithTxn (handleRename_txn s ?updated other (Path (Base other)) (Path (Base file))) ?st5"
  have new: "onNewFile s f st =
     (case ?txn of (Inl err, st6) \<Rightarrow> (Inl err, st6)
      | (Inr u, st6) \<Rightarrow>
          (Inr \<lparr>File = ?updated, New = False, Renamed = True, Updated = False\<rparr>, st6))"
    unfolding onNewFile_def Let_def
    using g c e hr
    by (simp add: handleRename_update_def Let_def split: prod.splits sum.splits)
  have sf: "ScanFile s f st = onNewFile s f st"
    using find by (simp add: ScanFile_def WithDB_def ScanFile_db_def)
  from ok sf new obtain u where t: "?txn = (Inr u, st')"
    and r: "r = \<lparr>File = ?updated, New = False, Renamed = True, Updated = False\<rparr>"
    by (auto split: prod.splits sum.splits)
  have d5: "db ?st5 = db st"
    using d1 d2 d3 d4 by (simp add: logger_Infof_def emit_def)
  from handleRename_txn_success [OF t] d5 r show ?thesis
    by (auto split: if_splits)
qed

text \<open>
  C2. \<^verbatim>\<open>ScanFile\<close> on a path with no catalog row: the parent folder is known, the
  calculator returns \<open>fp\<close>, the decorators turn the snapshot into \<open>file\<close>, and rename
  detection finds the missing candidates \<open>other # rest\<close>. If the scan succeeds, its result
  has \<open>Renamed\<close> set and \<open>New\<close> (and \<open>Updated\<close>) clear; the returned row keeps the identifier
  and creation time of \<open>other\<close> and takes path, basename, parent folder, mod time and size
  from the new snapshot \<open>file\<close>; and the catalog after the scan is the catalog before it
  with this one row passed to the store's \<open>Update\<close> (followed, for an archive, by the
  transfer of its hierarchy): no row is created.
\<close>
theorem ScanFile_rename_in_place:
  assumes "ScanFile_find s f (db st) = Inr None"
    and "fst (getFolderID s (filepath_Dir s (Path (BaseFile f))) st) = Inr (Some parentFolderID)"
    and "FingerprintCalculator s
           ((BaseFile f)\<lparr>CreatedAt := now st, UpdatedAt := now st,
                         ParentFolderID := parentFolderID\<rparr>)
           (FileFS f) (Path (BaseFile f)) False = Inr fp"
    and "fst (fireDecorators s (FileFS f)
            \<lparr>Base = SetFingerprints s
                      ((BaseFile f)\<lparr>CreatedAt := now st, UpdatedAt := now st,
                                    ParentFolderID := parentFolderID\<rparr>) fp,
             Meta = []\<rparr> st) = Inr file"
    and "handleRename_others s (db st) fp [] = Inr others"
    and "fst (handleRename_missing s file others [] st) = other # rest"
    and "ScanFile s f st = (Inr r, st')"
  shows "Renamed r \<and> \<not> New r \<and> \<not> Updated r
       \<and> ID (Base (File r)) = ID (Base other)
       \<and> CreatedAt (Base (File r)) = CreatedAt (Base other)
       \<and> Path (Base (File r)) = Path (Base file)
       \<and> Basename (Base (File r)) = Basename (Base file)
       \<and> ParentFolderID (Base (File r)) = ParentFolderID (Base file)
       \<and> ModTime (Base (File r)) = ModTime (Base file)
       \<and> Size (Base (File r)) = Size (Base file)
       \<and> (\<exists>c. File_Update (Repository s) (db st) (File r) = Inr c
              \<and> (if IsZipFile s (Basename (Base (File r)))
                  then transferZipHierarchy s c (ID (Base (File r)))
                         (Path (Base other)) (Path (Base file))
                  else Inr c) = Inr (db st'))"
proof -
  note core = ScanFile_rename_core [OF assms]
  from core have r: "r = \<lparr>File = other\<lparr>Base := (Base file)\<lparr>ID := ID (Base other),
                               CreatedAt := CreatedAt (Base other),
                               Fingerprints := Fingerprints (Base other)\<rparr>\<rparr>,
              New = False, Renamed = True, Updated = False\<rparr>"
    by (rule conjunct1)
  have fields: "Renamed r \<and> \<not> New r \<and> \<not> Updated r
       \<and> ID (Base (File r)) = ID (Base other)
       \<and> CreatedAt (Base (File r)) = CreatedAt (Base other)
       \<and> Path (Base (File r)) = Path (Base file)
       \<and> Basename (Base (File r)) = Basename (Base file)
       \<and> ParentFolderID (Base (File r)) = ParentFolderID (Base file)
       \<and> ModTime (Base (File r)) = ModTime (Base file)
       \<and> Size (Base (File r)) = Size (Base file)"
    by (simp add: r)
  from core fields show ?thesis by blast
qed

text \<open>The hypotheses of the rename theorems, in the scenario of the moved file.\<close>

lemma moved_find:
  "ScanFile_find (demoScanner (demoFS [''/lib/b/x.mp4''] True) [H1]) movedScanned
     (db (demoState movedCatalog)) = Inr None"
  by (simp add: ScanFile_find_def demo_defs Let_def)

lemma moved_parent:
  "fst (getFolderID (demoScanner (demoFS [''/lib/b/x.mp4''] True) [H1])
          (filepath_Dir (demoScanner (demoFS [''/lib/b/x.mp4''] True) [H1])
             (Path (BaseFile movedScanned)))
          (demoState movedCatalog)) = Inr (Some 3)"
  by (simp add: getFolderID_def demo_defs)

lemma moved_fps:
  "FingerprintCalculator (demoScanner (demoFS [''/lib/b/x.mp4''] True) [H1])
     ((BaseFile movedScanned)\<lparr>CreatedAt := now (demoState movedCatalog),
        UpdatedAt := now (demoState movedCatalog), ParentFolderID := 3\<rparr>)
     (FileFS movedScanned) (Path (BaseFile movedScanned)) False = Inr [H1]"
  by (simp add: demoScanner_def)

lemma moved_deco:
  "fst (fireDecorators (demoScanner (demoFS [''/lib/b/x.mp4''] True) [H1]) (FileFS movedScanned)
          \<lparr>Base = SetFingerprints (demoScanner (demoFS [''/lib/b/x.mp4''] True) [H1])
                    ((BaseFile movedScanned)\<lparr>CreatedAt := now (demoState movedCatalog),
                       UpdatedAt := now (demoState movedCatalog), ParentFolderID := 3\<rparr>) [H1],
           Meta = []\<rparr> (demoState movedCatalog))
     = Inr \<lparr>Base = demoFile 0 ''/lib/b/x.mp4'' ''x.mp4'' 3 None 200 [H1] 1000, Meta = []\<rparr>"
  by (simp add: fireDecorators_def demoScanner_def movedScanned_def demoFile_def demoState_def)

lemma moved_others:
  "handleRename_others (demoScanner (demoFS [''/lib/b/x.mp4''] True) [H1])
     (db (demoState movedCatalog)) [H1] [] = Inr (files movedCatalog)"
  by (simp add: demo_defs)

lemma moved_missing:
  "fst (handleRename_missing (demoScanner (demoFS [''/lib/b/x.mp4''] True) [H1])
          \<lparr>Base = demoFile 0 ''/lib/b/x.mp4'' ''x.mp4'' 3 None 200 [H1] 1000, Meta = []\<rparr>
          (files movedCatalog) [] (demoState movedCatalog))
     = \<lparr>Base = demoFile 7 ''/lib/a/x.mp4'' ''x.mp4'' 2 None 150 [H1, M1] 100, Meta = ''video''\<rparr> # []"
  by (simp add: getFileFS_def demo_defs Let_def)

lemma moved_result:
  "fst (ScanFile (demoScanner (demoFS [''/lib/b/x.mp4''] True) [H1]) movedScanned
          (demoState movedCatalog)) = Inr movedResult"
  by (simp add: scan_defs demo_defs Let_def)

lemma moved_files:
  "files (db (snd (ScanFile (demoScanner (demoFS [''/lib/b/x.mp4''] True) [H1]) movedScanned
                     (demoState movedCatalog)))) = [movedRow]"
  by (simp add: scan_defs demo_defs Let_def)

lemma moved_ok:
  "ScanFile (demoScanner (demoFS [''/lib/b/x.mp4''] True) [H1]) movedScanned
     (demoState movedCatalog)
   = (Inr movedResult,
      snd (ScanFile (demoScanner (demoFS [''/lib/b/x.mp4''] True) [H1]) movedScanned
             (demoState movedCatalog)))"
  using moved_result by (simp add: prod_eq_iff)

text \<open>The file of \<^verbatim>\<open>/lib/a/x.mp4\<close> (row 7, created at 100) is found at \<^verbatim>\<open>/lib/b/x.mp4\<close>:
  the catalog keeps its single row, repathed under the folder 3.\<close>
theorem ScanFile_rename_in_place_witness:
  "fst (ScanFile (demoScanner (demoFS [''/lib/b/x.mp4''] True) [H1]) movedScanned
          (demoState movedCatalog)) = Inr movedResult
   \<and> Renamed movedResult \<and> \<not> New movedResult
   \<and> ID (Base (File movedResult)) = 7
   \<and> CreatedAt (Base (File movedResult)) = 100
   \<and> Path (Base (File movedResult)) = ''/lib/b/x.mp4''
   \<and> ParentFolderID (Base (File movedResult)) = 3
   \<and> ModTime (Base (File movedResult)) = 200
   \<and> files (db (snd (ScanFile (demoScanner (demoFS [''/lib/b/x.mp4''] True) [H1]) movedScanned
                        (demoState movedCatalog)))) = [File movedResult]"
  using ScanFile_rename_in_place
          [OF moved_find moved_parent moved_fps moved_deco moved_others moved_missing moved_ok]
    moved_result moved_files
  by (simp add: movedResult_def movedRow_def demoFile_def)

text \<open>
  C3, as the code has it. After \<^verbatim>\<open>ScanFile\<close> has detected and persisted a rename, the
  fingerprint set of the renamed row is the set the first missing candidate had in the
  catalog: \<^verbatim>\<open>handleRename\<close> keeps it, as it keeps the identifier and the creation time,
  and the row it hands to the store's \<open>Update\<close> carries it.
\<close>
theorem ScanFile_rename_keeps_fingerprints:
  assumes "ScanFile_find s f (db st) = Inr None"
    and "fst (getFolderID s (filepath_Dir s (Path (BaseFile f))) st) = Inr (Some parentFolderID)"
    and "FingerprintCalculator s
           ((BaseFile f)\<lparr>CreatedAt := now st, UpdatedAt := now st,
                         ParentFolderID := parentFolderID\<rparr>)
           (FileFS f) (Path (BaseFile f)) False = Inr fp"
    and "fst (fireDecorators s (FileFS f)
            \<lparr>Base = SetFingerprints s
                      ((BaseFile f)\<lparr>CreatedAt := now st, UpdatedAt := now st,
                                    ParentFolderID := parentFolderID\<rparr>) fp,
             Meta = []\<rparr> st) = Inr file"
    and "handleRename_others s (db st) fp [] = Inr others"
    and "fst (handleRename_missing s file others [] st) = other # rest"
    and "ScanFile s f st = (Inr r, st')"
  shows "Renamed r
       \<and> Fingerprints (Base (File r)) = Fingerprints (Base other)
       \<and> (\<exists>c. File_Update (Repository s) (db st) (File r) = Inr c)"
proof -
  note core = ScanFile_rename_core [OF assms]
  from core have r: "r = \<lparr>File = other\<lparr>Base := (Base file)\<lparr>ID := ID (Base other),
                               CreatedAt := CreatedAt (Base other),
                               Fingerprints := Fingerprints (Base other)\<rparr>\<rparr>,
              New = False, Renamed = True, Updated = False\<rparr>"
    by (rule conjunct1)
  have fields: "Renamed r \<and> Fingerprints (Base (File r)) = Fingerprints (Base other)"
    by (simp add: r)
  from core fields show ?thesis by blast
qed

theorem ScanFile_rename_keeps_fingerprints_witness:
  "Renamed movedResult
   \<and> Fingerprints (Base (File movedResult)) = [H1, M1]
   \<and> map (\<lambda>f. Fingerprints (Base f)) (files movedCatalog) = [[H1, M1]]"
  using ScanFile_rename_keeps_fingerprints
          [OF moved_find moved_parent moved_fps moved_deco moved_others moved_missing moved_ok]
  by (simp add: movedResult_def movedRow_def demoFile_def movedCatalog_def)

text \<open>
  C3 as stated fails: the file moved to \<^verbatim>\<open>/lib/b/x.mp4\<close> has the freshly computed set
  \<open>[H1]\<close> (an oshash alone), the scan detects the rename of row 7 and persists it, and the
  row returned and stored carries the set \<open>[H1, M1]\<close> the row had before.
\<close>
theorem rename_keeps_stale_md5:
  "FingerprintCalculator (demoScanner (demoFS [''/lib/b/x.mp4''] True) [H1])
     (BaseFile movedScanned) (FileFS movedScanned) (Path (BaseFile movedScanned)) False = Inr [H1]
   \<and> map_sum id (\<lambda>r. (Renamed r, Fingerprints (Base (File r))))
       (fst (ScanFile (demoScanner (demoFS [''/lib/b/x.mp4''] True) [H1]) movedScanned
               (demoState movedCatalog))) = Inr (True, [H1, M1])
   \<and> map (\<lambda>f. Fingerprints (Base f))
       (files (db (snd (ScanFile (demoScanner (demoFS [''/lib/b/x.mp4''] True) [H1]) movedScanned
                          (demoState movedCatalog))))) = [[H1, M1]]
   \<and> [H1, M1] \<noteq> [H1]"
proof -
  have a: "FingerprintCalculator (demoScanner (demoFS [''/lib/b/x.mp4''] True) [H1])
     (BaseFile movedScanned) (FileFS movedScanned) (Path (BaseFile movedScanned)) False = Inr [H1]"
    by (simp add: demoScanner_def)
  show ?thesis
    unfolding moved_result moved_files
    using a by (simp add: movedResult_def movedRow_def demoFile_def)
qed

subsection \<open>Where the code leaves its own intent\<close>

text \<open>
  C1, at a failing input. On a case-insensitive filesystem the file \<^verbatim>\<open>/lib/A/x.mp4\<close> of
  row 7 is now spelled \<^verbatim>\<open>X.MP4\<close> and has new content. It is outside any archive. A
  case-insensitive lookup by path finds row 7, but \<^verbatim>\<open>ScanFile\<close> makes that second lookup
  only for a file inside an archive: here it finds nothing, treats the file as new and
  creates row 8 beside row 7. The same file inside an archive is found, and so is a folder
  outside an archive by \<^verbatim>\<open>ScanFolder\<close>.
\<close>
theorem ScanFile_skips_second_lookup_outside_archive:
  "\<not> IsPathCaseSensitive caseFS ''/lib/A/X.MP4''
   \<and> map_sum id (map_option (\<lambda>f. ID (Base f)))
       (File_FindByPath memRepository caseCatalog ''/lib/A/X.MP4'' False) = Inr (Some 7)
   \<and> ScanFile_find (demoScanner caseFS [H2])
       (demoScanned ''/lib/A/X.MP4'' ''X.MP4'' None 200 caseFS) caseCatalog = Inr None
   \<and> map_sum id (\<lambda>r. (New r, ID (Base (File r))))
       (fst (ScanFile (demoScanner caseFS [H2])
               (demoScanned ''/lib/A/X.MP4'' ''X.MP4'' None 200 caseFS)
               (demoState caseCatalog))) = Inr (True, 8)
   \<and> map (\<lambda>f. Path (Base f))
       (files (db (snd (ScanFile (demoScanner caseFS [H2])
               (demoScanned ''/lib/A/X.MP4'' ''X.MP4'' None 200 caseFS)
               (demoState caseCatalog))))) = [''/lib/A/x.mp4'', ''/lib/A/X.MP4'']
   \<and> map_sum id (map_option (\<lambda>f. ID (Base f)))
       (ScanFile_find (demoScanner caseFS [H2])
          (demoScanned ''/lib/A/X.MP4'' ''X.MP4'' (Some 9) 200 caseFS) caseCatalog) = Inr (Some 7)
   \<and> map_sum id (map_option Folder_ID)
       (ScanFolder_find (demoScanner caseFS [])
          (demoScanned ''/lib/a'' ''a'' None 50 caseFS) caseCatalog) = Inr (Some 2)"
  by (simp add: scan_defs demo_defs Let_def)

text \<open>
  C8, at a failing input. The folder \<^verbatim>\<open>/lib/c\<close> is scanned, move detection answers that
  \<^verbatim>\<open>/lib/a\<close> was moved there, and the store's \<open>Update\<close> fails because the database is
  locked. The transaction rolls back and the catalog is as before, yet the line about the
  move is in the output: \<^verbatim>\<open>handleFolderRename\<close> prints it directly. With no move
  detected, the line about the creation waits in a post-commit hook and is dropped with
  the failed transaction.
\<close>
theorem folder_move_logged_on_rollback:
  "fst (ScanFolder movingScanner
          (demoScanned ''/lib/c'' ''c'' None 200 (demoFS [''/lib/c''] True))
          (demoState movedCatalog))
     = Inl (Errorf ''updating folder for rename %q: %w'' ''/lib/c''
              (Some (Error ''database is locked'')))
   \<and> db (snd (ScanFolder movingScanner
          (demoScanned ''/lib/c'' ''c'' None 200 (demoFS [''/lib/c''] True))
          (demoState movedCatalog))) = movedCatalog
   \<and> trace (snd (ScanFolder movingScanner
          (demoScanned ''/lib/c'' ''c'' None 200 (demoFS [''/lib/c''] True))
          (demoState movedCatalog)))
     = [EvDetectFolderMove ''/lib/c'', EvLog ''/lib/a moved to /lib/c. Updating path...'']
   \<and> trace (snd (ScanFolder (movingScanner\<lparr>detectFolderMove := (\<lambda>c f. Inr None)\<rparr>)
          (demoScanned ''/lib/c'' ''c'' None 200 (demoFS [''/lib/c''] True))
          (demoState movedCatalog)))
     = [EvDetectFolderMove ''/lib/c'']"
  by (simp add: scan_defs demo_defs Let_def)

subsection \<open>Changed and unchanged files\<close>

lemma grows_refl [simp]: "grows P st st"
  by (simp add: grows_def)




lemma fireDecorators_loop_hooks:
  "postCommitHooks (snd (fireDecorators_loop ds fs f st)) = postCommitHooks st"
  by (induction ds arbitrary: f st) (auto simp: emit_def Let_def split: sum.splits)













lemma noCalcLog_Decorate [simp]: "noCalcLog (EvDecorate x)"
  by (simp add: noCalcLog_def)

lemma noCalcLog_Handle [simp]: "noCalcLog (EvHandle y z)"
  by (simp add: noCalcLog_def)






lemma fireHandlers_loop_result:
  "db st0 = db st \<Longrightarrow>
   fst (fireHandlers_loop hs f old st0) = fst (fireHandlers_loop hs f old st)"
proof (induction hs arbitrary: st0 st)
  case Nil
  then show ?case by simp
next
  case (Cons h hs)
  have "db (emit (EvHandle f old) st0) = db (emit (EvHandle f old) st)"
    using Cons.prems by (simp add: emit_def)
  from Cons.IH [OF this] Cons.prems show ?case
    by (simp add: Let_def emit_def split: option.splits)
qed

lemma removeOutdatedFingerprints_db:
  "db (snd (removeOutdatedFingerprints existing fp st)) = db st"
  by (simp add: removeOutdatedFingerprints_def logger_Infof_def emit_def split: option.splits)

lemma removeOutdatedFingerprints_result:
  "fst (removeOutdatedFingerprints existing fp st) = fst (removeOutdatedFingerprints existing fp st0)"
  by (simp add: removeOutdatedFingerprints_file)

lemma WithTxn_onExistingFile_outcome:
  "(fst (WithTxn (onExistingFile_txn s e3 p oldBase) st),
    db (snd (WithTxn (onExistingFile_txn s e3 p oldBase) st))) =
   (case File_Update (Repository s) (db st) e3 of
      Inl err \<Rightarrow> (Inl (Errorf ''updating file %q: %w'' p (Some err)), db st)
    | Inr c \<Rightarrow>
        (case fst (fireHandlers s e3 (Some \<lparr>Base = oldBase, Meta = []\<rparr>) (st\<lparr>db := c\<rparr>)) of
           Inl err \<Rightarrow> (Inl err, db st)
         | Inr u \<Rightarrow> (Inr u, c)))"
proof (cases "File_Update (Repository s) (db st) e3")
  case (Inl err)
  then show ?thesis
    by (simp add: WithTxn_def onExistingFile_txn_def)
next
  case (Inr c)
  let ?old = "Some \<lparr>Base = oldBase, Meta = []\<rparr>"
  let ?b = "fireHandlers s e3 ?old (st\<lparr>postCommitHooks := [], db := c\<rparr>)"
  have r: "fst ?b = fst (fireHandlers s e3 ?old (st\<lparr>db := c\<rparr>))"
    unfolding fireHandlers_def by (rule fireHandlers_loop_result) simp
  have d: "db (snd ?b) = c"
    using fireHandlers_loop_db [of "FileHandlers s" e3 ?old "st\<lparr>postCommitHooks := [], db := c\<rparr>"]
    by (simp add: fireHandlers_def)
  show ?thesis
    using Inr r d
    by (cases ?b) (auto simp: WithTxn_def onExistingFile_txn_def split: sum.splits)
qed

lemma onExistingFile_changed_outcome:
  assumes "ModTime (BaseFile f) \<noteq> ModTime (Base existing)
           \<or> Basename (Base existing) \<noteq> Basename (BaseFile f) \<or> Rescan s"
  shows "(fst (onExistingFile s f existing st), db (snd (onExistingFile s f existing st))) =
     (case FingerprintCalculator s
             ((Base existing)\<lparr>Basename := Basename (BaseFile f), ModTime := ModTime (BaseFile f),
                               Size := Size (BaseFile f), UpdatedAt := now st\<rparr>)
             (FileFS f) (Path (Base existing)) False of
        Inl err \<Rightarrow>
          (Inl (Errorf ''calculating fingerprint for file %q: %w'' (Path (Base existing)) (Some err)),
           db st)
      | Inr fp \<Rightarrow>
          rescanPersist s f
            (let existing1 = fst (removeOutdatedFingerprints
                    (existing\<lparr>Base := (Base existing)\<lparr>Basename := Basename (BaseFile f),
                        ModTime := ModTime (BaseFile f), Size := Size (BaseFile f),
                        UpdatedAt := now st\<rparr>\<rparr>) fp st)
             in existing1\<lparr>Base := SetFingerprints s (Base existing1) fp\<rparr>)
            (Base existing) st)"
proof -
  let ?path = "Path (Base existing)"
  let ?upd = "ModTime (BaseFile f) \<noteq> ModTime (Base existing)
              \<or> Basename (Base existing) \<noteq> Basename (BaseFile f)"
  let ?st1 = "if \<not> ?upd \<and> Rescan s then logger_Infof (''rescanning '' @ ?path) st
              else logger_Infof (?path @ '' has been updated: rescanning'') st"
  let ?base1 = "(Base existing)\<lparr>Basename := Basename (BaseFile f), ModTime := ModTime (BaseFile f),
                  Size := Size (BaseFile f), UpdatedAt := now st\<rparr>"
  let ?c = "calculateFingerprints s (FileFS f) ?base1 ?path False ?st1"
  have d1: "db ?st1 = db st"
    by (simp add: logger_Infof_def emit_def)
  show ?thesis
  proof (cases "FingerprintCalculator s ?base1 (FileFS f) ?path False")
    case (Inl err)
    then have "fst ?c = Inl (Errorf ''calculating fingerprint for file %q: %w'' ?path (Some err))"
      and "db (snd ?c) = db st"
      by (simp_all add: calculateFingerprints_def logger_Infof_def emit_def)
    then have "fst (onExistingFile s f existing st) =
                 Inl (Errorf ''calculating fingerprint for file %q: %w'' ?path (Some err))
               \<and> db (snd (onExistingFile s f existing st)) = db st"
      using assms by (cases ?c) (auto simp: onExistingFile_def Let_def)
    with Inl show ?thesis by simp
  next
    case (Inr fp)
    obtain st2 where c: "?c = (Inr fp, st2)" and d2: "db st2 = db st"
      using Inr by (simp add: calculateFingerprints_def logger_Infof_def emit_def)
    obtain existing1 st3 where ro: "removeOutdatedFingerprints (existing\<lparr>Base := ?base1\<rparr>) fp st2
                                      = (existing1, st3)"
      by (cases "removeOutdatedFingerprints (existing\<lparr>Base := ?base1\<rparr>) fp st2")
    have e1: "existing1 = fst (removeOutdatedFingerprints (existing\<lparr>Base := ?base1\<rparr>) fp st)"
      using ro removeOutdatedFingerprints_result [of "existing\<lparr>Base := ?base1\<rparr>" fp st2 st]
      by simp
    have d3: "db st3 = db st"
      using ro removeOutdatedFingerprints_db [of "existing\<lparr>Base := ?base1\<rparr>" fp st2] d2 by simp
    let ?existing2 = "existing1\<lparr>Base := SetFingerprints s (Base existing1) fp\<rparr>"
    obtain r4 st4 where fd: "fireDecorators s (FileFS f) ?existing2 st3 = (r4, st4)"
      by (cases "fireDecorators s (FileFS f) ?existing2 st3")
    have r4: "fst (fireDecorators s (FileFS f) ?existing2 st) = r4"
      using fd fireDecorators_loop_result [of "FileDecorators s" "FileFS f" ?existing2 st3 st]
      by (simp add: fireDecorators_def)
    have d4: "db st4 = db st"
      using fd fireDecorators_loop_db [of "FileDecorators s" "FileFS f" ?existing2 st3] d3
      by (simp add: fireDecorators_def)
    have rhs: "(case FingerprintCalculator s ?base1 (FileFS f) ?path False of
        Inl err \<Rightarrow>
          (Inl (Errorf ''calculating fingerprint for file %q: %w'' ?path (Some err)), db st)
      | Inr fp \<Rightarrow>
          rescanPersist s f
            (let existing1 = fst (removeOutdatedFingerprints (existing\<lparr>Base := ?base1\<rparr>) fp st)
             in existing1\<lparr>Base := SetFingerprints s (Base existing1) fp\<rparr>)
            (Base existing) st) = rescanPersist s f ?existing2 (Base existing) st"
      using Inr e1 by (simp add: Let_def)
    show ?thesis
    proof (cases r4)
      case i4: (Inl err)
      have "onExistingFile s f existing st = (Inl err, st4)"
        using assms c ro fd i4 by (auto simp: onExistingFile_def Let_def)
      then show ?thesis
        unfolding rhs using r4 i4 d4 by (simp add: rescanPersist_def)
    next
      case i4: (Inr existing3)
      let ?w = "WithTxn (onExistingFile_txn s existing3 ?path (Base existing)) st4"
      have oe: "fst (onExistingFile s f existing st) =
                  (case fst ?w of Inl err \<Rightarrow> Inl err
                   | Inr u \<Rightarrow> Inr \<lparr>File = existing3, New = False, Renamed = False, Updated = True\<rparr>)
                \<and> snd (onExistingFile s f existing st) = snd ?w"
        using assms c ro fd i4
        by (cases ?w) (auto simp: onExistingFile_def Let_def split: sum.splits)
      have hs: "fst (fireHandlers s existing3 (Some \<lparr>Base = Base existing, Meta = []\<rparr>) (st4\<lparr>db := c\<rparr>))
              = fst (fireHandlers s existing3 (Some \<lparr>Base = Base existing, Meta = []\<rparr>) (st\<lparr>db := c\<rparr>))"
        for c
        unfolding fireHandlers_def by (rule fireHandlers_loop_result) simp
      show ?thesis
        unfolding rhs
        using oe WithTxn_onExistingFile_outcome [of s existing3 ?path "Base existing" st4] r4 i4 d4 hs
        by (auto simp: rescanPersist_def split: sum.splits)
    qed
  qed
qed

lemma handleRename_outcome:
  assumes "handleRename s file fp st = (Inr hres, st')"
  shows "\<exists>others. handleRename_others s (db st) fp [] = Inr others
           \<and> (case fst (handleRename_missing s file others [] st) of
                 [] \<Rightarrow> hres = None \<and> db st' = db st
               | other # rest \<Rightarrow>
                   hres = Some (other\<lparr>Base := (Base file)\<lparr>ID := ID (Base other),
                                  CreatedAt := CreatedAt (Base other),
                                  Fingerprints := Fingerprints (Base other)\<rparr>\<rparr>))"
proof -
  from assms obtain others where o: "handleRename_others s (db st) fp [] = Inr others"
    by (cases "handleRename_others s (db st) fp []") (auto simp: handleRename_def)
  obtain missing st1 where m: "handleRename_missing s file others [] st = (missing, st1)"
    by (cases "handleRename_missing s file others [] st")
  have d: "db st1 = db st"
    using m handleRename_missing_db [of s "file" others "[]" st] by simp
  show ?thesis
  proof (cases missing)
    case Nil
    with assms o m d show ?thesis by (auto simp: handleRename_def)
  next
    case (Cons other rest)
    with assms o m have "handleRename_update s file other st1 = (Inr hres, st')"
      by (simp add: handleRename_def)
    then have "hres = Some (other\<lparr>Base := (Base file)\<lparr>ID := ID (Base other),
                                  CreatedAt := CreatedAt (Base other),
                                  Fingerprints := Fingerprints (Base other)\<rparr>\<rparr>)"
      by (auto simp: handleRename_update_def Let_def split: prod.splits sum.splits)
    with o m Cons show ?thesis by simp
  qed
qed

lemma onNewFile_txn_success:
  assumes "WithTxn (onNewFile_txn s file path) st = (Inr created, st')"
  shows "\<exists>c. File_Create (Repository s) (db st) file = Inr (created, c)"
  using assms
  by (auto simp: WithTxn_def onNewFile_txn_def split: prod.splits sum.splits)

lemma onNewFile_steps:
  assumes "onNewFile s f st = (Inr r, st')"
  shows "\<exists>pid st1 fp st2 file st3 hres st4.
      getFolderID s (filepath_Dir s (Path (BaseFile f))) st = (Inr (Some pid), st1)
    \<and> calculateFingerprints s (FileFS f)
         ((BaseFile f)\<lparr>CreatedAt := now st, UpdatedAt := now st, ParentFolderID := pid\<rparr>)
         (Path (BaseFile f)) False st1 = (Inr fp, st2)
    \<and> fireDecorators s (FileFS f)
         \<lparr>Base = SetFingerprints s
                   ((BaseFile f)\<lparr>CreatedAt := now st, UpdatedAt := now st, ParentFolderID := pid\<rparr>) fp,
          Meta = []\<rparr> st2 = (Inr file, st3)
    \<and> handleRename s file fp st3 = (Inr hres, st4)
    \<and> (case hres of
          Some renamed \<Rightarrow> r = \<lparr>File = renamed, New = False, Renamed = True, Updated = False\<rparr>
        | None \<Rightarrow> (\<exists>created. WithTxn (onNewFile_txn s file (Path (BaseFile f))) st4 = (Inr created, st')
                      \<and> r = \<lparr>File = created, New = True, Renamed = False, Updated = False\<rparr>))"
  using assms
  by (auto simp: onNewFile_def Let_def split: prod.splits sum.splits option.splits)

lemma onNewFile_outcome:
  assumes "onNewFile s f st = (Inr r, st')"
  shows "\<exists>pid fp file others.
      fst (getFolderID s (filepath_Dir s (Path (BaseFile f))) st) = Inr (Some pid)
    \<and> FingerprintCalculator s
         ((BaseFile f)\<lparr>CreatedAt := now st, UpdatedAt := now st, ParentFolderID := pid\<rparr>)
         (FileFS f) (Path (BaseFile f)) False = Inr fp
    \<and> fst (fireDecorators s (FileFS f)
         \<lparr>Base = SetFingerprints s
                   ((BaseFile f)\<lparr>CreatedAt := now st, UpdatedAt := now st, ParentFolderID := pid\<rparr>) fp,
          Meta = []\<rparr> st) = Inr file
    \<and> handleRename_others s (db st) fp [] = Inr others
    \<and> (case fst (handleRename_missing s file others [] st) of
          [] \<Rightarrow> New r \<and> \<not> Renamed r \<and> \<not> Updated r
                 \<and> (\<exists>c. File_Create (Repository s) (db st) file = Inr (File r, c))
        | other # rest \<Rightarrow>
            Renamed r \<and> \<not> New r \<and> \<not> Updated r
            \<and> File r = other\<lparr>Base := (Base file)\<lparr>ID := ID (Base other),
                           CreatedAt := CreatedAt (Base other),
                           Fingerprints := Fingerprints (Base other)\<rparr>\<rparr>)"
proof -
  let ?dir = "filepath_Dir s (Path (BaseFile f))"
  from onNewFile_steps [OF assms] obtain pid st1 fp st2 dfile st3 hres st4 where
    g: "getFolderID s ?dir st = (Inr (Some pid), st1)"
    and c: "calculateFingerprints s (FileFS f)
         ((BaseFile f)\<lparr>CreatedAt := now st, UpdatedAt := now st, ParentFolderID := pid\<rparr>)
         (Path (BaseFile f)) False st1 = (Inr fp, st2)"
    and e: "fireDecorators s (FileFS f)
         \<lparr>Base = SetFingerprints s
                   ((BaseFile f)\<lparr>CreatedAt := now st, UpdatedAt := now st, ParentFolderID := pid\<rparr>) fp,
          Meta = []\<rparr> st2 = (Inr dfile, st3)"
    and h: "handleRename s dfile fp st3 = (Inr hres, st4)"
    and fin: "(case hres of
          Some renamed \<Rightarrow> r = \<lparr>File = renamed, New = False, Renamed = True, Updated = False\<rparr>
        | None \<Rightarrow> (\<exists>created. WithTxn (onNewFile_txn s dfile (Path (BaseFile f))) st4 = (Inr created, st')
                      \<and> r = \<lparr>File = created, New = True, Renamed = False, Updated = False\<rparr>))"
    by blast
  let ?base1 = "(BaseFile f)\<lparr>CreatedAt := now st, UpdatedAt := now st, ParentFolderID := pid\<rparr>"
  let ?file0 = "\<lparr>Base = SetFingerprints s ?base1 fp, Meta = []\<rparr>"
  have d1: "db st1 = db st"
    using getFolderID_frame [of s ?dir st] g by simp
  have c': "FingerprintCalculator s ?base1 (FileFS f) (Path (BaseFile f)) False = Inr fp"
    and d2: "db st2 = db st1"
    using c by (auto simp: calculateFingerprints_def logger_Infof_def emit_def Let_def split: sum.splits)
  have e': "fst (fireDecorators s (FileFS f) ?file0 st) = Inr dfile"
    using e fireDecorators_loop_result [of "FileDecorators s" "FileFS f" ?file0 st st2]
    by (simp add: fireDecorators_def)
  have d3: "db st3 = db st2"
    using e fireDecorators_loop_db [of "FileDecorators s" "FileFS f" ?file0 st2]
    by (simp add: fireDecorators_def)
  have d: "db st3 = db st"
    using d1 d2 d3 by simp
  from handleRename_outcome [OF h] obtain others where
    o: "handleRename_others s (db st) fp [] = Inr others"
    and k: "(case fst (handleRename_missing s dfile others [] st3) of
                 [] \<Rightarrow> hres = None \<and> db st4 = db st3
               | other # rest \<Rightarrow>
                   hres = Some (other\<lparr>Base := (Base dfile)\<lparr>ID := ID (Base other),
                                  CreatedAt := CreatedAt (Base other),
                                  Fingerprints := Fingerprints (Base other)\<rparr>\<rparr>))"
    unfolding d by blast
  have mi: "fst (handleRename_missing s dfile others [] st3) = fst (handleRename_missing s dfile others [] st)"
    by (rule handleRename_missing_result)
  have last: "(case fst (handleRename_missing s dfile others [] st) of
          [] \<Rightarrow> New r \<and> \<not> Renamed r \<and> \<not> Updated r
                 \<and> (\<exists>c. File_Create (Repository s) (db st) dfile = Inr (File r, c))
        | other # rest \<Rightarrow>
            Renamed r \<and> \<not> New r \<and> \<not> Updated r
            \<and> File r = other\<lparr>Base := (Base dfile)\<lparr>ID := ID (Base other),
                           CreatedAt := CreatedAt (Base other),
                           Fingerprints := Fingerprints (Base other)\<rparr>\<rparr>)"
  proof (cases "fst (handleRename_missing s dfile others [] st)")
    case Nil
    with k mi have hn: "hres = None" and d4: "db st4 = db st" using d by simp_all
    from fin hn obtain created where
      w: "WithTxn (onNewFile_txn s dfile (Path (BaseFile f))) st4 = (Inr created, st')"
      and r: "r = \<lparr>File = created, New = True, Renamed = False, Updated = False\<rparr>"
      by auto
    from onNewFile_txn_success [OF w] d4 r Nil show ?thesis by simp
  next
    case (Cons other rest)
    with k mi fin show ?thesis by simp
  qed
  from g c' e' o last show ?thesis
    by (intro exI [of _ pid] exI [of _ fp] exI [of _ dfile] exI [of _ others]) simp
qed

lemma onUnchangedFile_outcome:
  assumes "onUnchangedFile s f existing st = (Inr r, st')"
  shows "(case onUnchangedFile_repair s f existing st of
            (Inl err, st2) \<Rightarrow> False
          | (Inr existing2, st2) \<Rightarrow>
              File r = existing2 \<and> \<not> New r \<and> \<not> Renamed r
              \<and> (Updated r \<longleftrightarrow> isMissingMetadata s f existing
                                \<or> isHandlerRequired s (db st2) existing2))"
  using assms
  by (auto simp: onUnchangedFile_def onUnchangedFile_repair_def WithDB_def Let_def
        split: prod.splits sum.splits if_splits)



text \<open>
  C5. When an existing file is rescanned as changed and the calculator returns the set
  \<open>fp\<close>, the stored MD5 is removed iff the new set has an oshash, the stored set has an
  oshash, the two values differ and the new set has no MD5. What the scan returns and
  writes is what comes of applying the new set (\<^verbatim>\<open>SetFingerprints\<close>) to the row whose
  stored set is \<open>kept\<close>: the stored set without its MD5 in that case, the stored set as it
  was in every other case. \<open>kept\<close> has no MD5 in the first case and the stored MD5 (if any)
  otherwise, and its oshash is the stored one.
\<close>
theorem ScanFile_rescan_outdated_md5:
  assumes find: "ScanFile_find s f (db st) = Inr (Some existing)"
    and changed: "ModTime (BaseFile f) \<noteq> ModTime (Base existing)
                  \<or> Basename (Base existing) \<noteq> Basename (BaseFile f) \<or> Rescan s"
    and calc: "FingerprintCalculator s
                 ((Base existing)\<lparr>Basename := Basename (BaseFile f),
                    ModTime := ModTime (BaseFile f), Size := Size (BaseFile f),
                    UpdatedAt := now st\<rparr>)
                 (FileFS f) (Path (Base existing)) False = Inr fp"
  shows "(let stored = Fingerprints (Base existing);
              stale = (Fingerprints_For fp FingerprintTypeOshash \<noteq> None
                       \<and> Fingerprints_For stored FingerprintTypeOshash \<noteq> None
                       \<and> map_option Fingerprint (Fingerprints_For stored FingerprintTypeOshash)
                           \<noteq> map_option Fingerprint (Fingerprints_For fp FingerprintTypeOshash)
                       \<and> Fingerprints_For fp FingerprintTypeMD5 = None);
              kept = (if stale then Fingerprints_Remove stored FingerprintTypeMD5 else stored)
          in (fst (ScanFile s f st), db (snd (ScanFile s f st))) =
               rescanPersist s f
                 (existing\<lparr>Base := SetFingerprints s
                     ((Base existing)\<lparr>Basename := Basename (BaseFile f),
                        ModTime := ModTime (BaseFile f), Size := Size (BaseFile f),
                        UpdatedAt := now st, Fingerprints := kept\<rparr>) fp\<rparr>)
                 (Base existing) st
             \<and> Fingerprints_For kept FingerprintTypeMD5 =
                 (if stale then None else Fingerprints_For stored FingerprintTypeMD5)
             \<and> Fingerprints_For kept FingerprintTypeOshash =
                 Fingerprints_For stored FingerprintTypeOshash)"
proof -
  let ?base1 = "(Base existing)\<lparr>Basename := Basename (BaseFile f),
                    ModTime := ModTime (BaseFile f), Size := Size (BaseFile f),
                    UpdatedAt := now st\<rparr>"
  have sf: "ScanFile s f st = onExistingFile s f existing st"
    using find by (simp add: ScanFile_def WithDB_def ScanFile_db_def)
  have same: "?base1\<lparr>Fingerprints := Fingerprints (Base existing)\<rparr> = ?base1"
    by simp
  show ?thesis
    unfolding sf onExistingFile_changed_outcome [OF changed] calc
    using same
    by (simp add: Let_def removeOutdatedFingerprints_file Fingerprints_For_Remove_same
          Fingerprints_For_Remove_other FingerprintTypeOshash_def FingerprintTypeMD5_def)
qed

text \<open>Row 7 holds the oshash \<open>h1\<close> and an MD5; the file is rescanned with the oshash \<open>h2\<close>
  and no MD5, by a scanner that sets fingerprints per type. The MD5 is gone from the row
  returned and stored; set on the untouched stored set, the new oshash would have left
  it.\<close>
theorem ScanFile_rescan_outdated_md5_witness:
  "map_sum id (\<lambda>r. (Updated r, Fingerprints (Base (File r))))
     (fst (ScanFile ((demoScanner (demoFS [''/lib/a/x.mp4''] True) [H2])
                       \<lparr>SetFingerprints := demoSetFingerprints\<rparr>)
             (demoScanned ''/lib/a/x.mp4'' ''x.mp4'' None 200 (demoFS [''/lib/a/x.mp4''] True))
             (demoState movedCatalog))) = Inr (True, [H2])
   \<and> map (\<lambda>x. Fingerprints (Base x))
       (files (db (snd (ScanFile ((demoScanner (demoFS [''/lib/a/x.mp4''] True) [H2])
                       \<lparr>SetFingerprints := demoSetFingerprints\<rparr>)
             (demoScanned ''/lib/a/x.mp4'' ''x.mp4'' None 200 (demoFS [''/lib/a/x.mp4''] True))
             (demoState movedCatalog))))) = [[H2]]
   \<and> map (\<lambda>x. Fingerprints (Base x)) (files movedCatalog) = [[H1, M1]]
   \<and> Fingerprints (demoSetFingerprints (demoFile 7 [] [] 2 None 0 [H1, M1] 0) [H2]) = [H2, M1]"
proof -
  let ?S = "(demoScanner (demoFS [''/lib/a/x.mp4''] True) [H2])
              \<lparr>SetFingerprints := demoSetFingerprints\<rparr>"
  let ?F = "demoScanned ''/lib/a/x.mp4'' ''x.mp4'' None 200 (demoFS [''/lib/a/x.mp4''] True)"
  let ?row = "\<lparr>Base = demoFile 7 ''/lib/a/x.mp4'' ''x.mp4'' 2 None 150 [H1, M1] 100,
               Meta = ''video''\<rparr>"
  have a: "ScanFile_find ?S ?F (db (demoState movedCatalog)) = Inr (Some ?row)"
    by (simp add: ScanFile_find_def demo_defs Let_def)
  have b: "ModTime (BaseFile ?F) \<noteq> ModTime (Base ?row)
           \<or> Basename (Base ?row) \<noteq> Basename (BaseFile ?F) \<or> Rescan ?S"
    by (simp add: demoScanned_def demoFile_def)
  have c: "FingerprintCalculator ?S
             ((Base ?row)\<lparr>Basename := Basename (BaseFile ?F), ModTime := ModTime (BaseFile ?F),
                Size := Size (BaseFile ?F), UpdatedAt := now (demoState movedCatalog)\<rparr>)
             (FileFS ?F) (Path (Base ?row)) False = Inr [H2]"
    by (simp add: demoScanner_def)
  note t = ScanFile_rescan_outdated_md5 [OF a b c, unfolded Let_def, THEN conjunct1]
  have d: "map (\<lambda>x. Fingerprints (Base x)) (files movedCatalog) = [[H1, M1]]"
    by (simp add: movedCatalog_def demoFile_def)
  have e: "Fingerprints (demoSetFingerprints (demoFile 7 [] [] 2 None 0 [H1, M1] 0) [H2]) = [H2, M1]"
    by (simp add: demoSetFingerprints_def demoFile_def H1_def H2_def M1_def)
  show ?thesis
    using t d e
    by (simp add: rescanPersist_def fireDecorators_def fireHandlers_def demo_defs
          FingerprintTypeOshash_def FingerprintTypeMD5_def)
qed

text \<open>
  C7. Every successful \<^verbatim>\<open>ScanFile\<close> returns a result with at most one of \<open>New\<close>,
  \<open>Renamed\<close>, \<open>Updated\<close> set. When the lookup by path found no row, the parent folder was
  found, the calculator and the decorators succeeded, and the flags follow rename
  detection: with no missing candidate the file was created (the create path: the row is
  the one the store's \<open>Create\<close> returned, and \<open>New\<close> alone is set); with a first missing
  candidate it was renamed (the rename path: the row is the candidate's, repathed, and
  \<open>Renamed\<close> alone is set). When the lookup found a row, the result is neither new nor
  renamed; it is updated when the file changed (mod time, basename or forced rescan);
  for an unchanged file the row is the one the repairs left, and it is updated exactly
  when a decorator reported missing metadata or the handler filters, asked in the catalog
  the repairs left, require the handlers. A truly unchanged file sets none of the three.
\<close>
theorem ScanFile_flags:
  assumes "ScanFile s f st = (Inr r, st')"
  shows "(New r \<longrightarrow> \<not> Renamed r \<and> \<not> Updated r) \<and> (Renamed r \<longrightarrow> \<not> Updated r)
    \<and> (case ScanFile_find s f (db st) of
          Inl err \<Rightarrow> False
        | Inr None \<Rightarrow>
            (\<exists>pid fp file others.
                fst (getFolderID s (filepath_Dir s (Path (BaseFile f))) st) = Inr (Some pid)
              \<and> FingerprintCalculator s
                   ((BaseFile f)\<lparr>CreatedAt := now st, UpdatedAt := now st,
                                 ParentFolderID := pid\<rparr>)
                   (FileFS f) (Path (BaseFile f)) False = Inr fp
              \<and> fst (fireDecorators s (FileFS f)
                   \<lparr>Base = SetFingerprints s
                             ((BaseFile f)\<lparr>CreatedAt := now st, UpdatedAt := now st,
                                           ParentFolderID := pid\<rparr>) fp,
                    Meta = []\<rparr> st) = Inr file
              \<and> handleRename_others s (db st) fp [] = Inr others
              \<and> (case fst (handleRename_missing s file others [] st) of
                    [] \<Rightarrow> New r \<and> \<not> Renamed r \<and> \<not> Updated r
                           \<and> (\<exists>c. File_Create (Repository s) (db st) file = Inr (File r, c))
                  | other # rest \<Rightarrow>
                      Renamed r \<and> \<not> New r \<and> \<not> Updated r
                      \<and> File r = other\<lparr>Base := (Base file)\<lparr>ID := ID (Base other),
                                     CreatedAt := CreatedAt (Base other),
                                     Fingerprints := Fingerprints (Base other)\<rparr>\<rparr>))
        | Inr (Some existing) \<Rightarrow>
            \<not> New r \<and> \<not> Renamed r
            \<and> (if ModTime (BaseFile f) \<noteq> ModTime (Base existing)
                   \<or> Basename (Base existing) \<noteq> Basename (BaseFile f)
                   \<or> Rescan s
                then Updated r
                else (case onUnchangedFile_repair s f existing st of
                        (Inl err, st2) \<Rightarrow> False
                      | (Inr existing2, st2) \<Rightarrow>
                          File r = existing2
                          \<and> (Updated r \<longleftrightarrow> isMissingMetadata s f existing
                                            \<or> isHandlerRequired s (db st2) existing2))))"
proof (cases "ScanFile_find s f (db st)")
  case (Inl err)
  then show ?thesis using assms by (simp add: ScanFile_def WithDB_def ScanFile_db_def)
next
  case (Inr found)
  show ?thesis
  proof (cases found)
    case None
    with Inr assms have n: "onNewFile s f st = (Inr r, st')"
      by (simp add: ScanFile_def WithDB_def ScanFile_db_def)
    from onNewFile_flags [OF n] have fl: "\<not> Updated r \<and> (New r \<longleftrightarrow> \<not> Renamed r)" .
    from onNewFile_outcome [OF n] fl Inr None show ?thesis
      by simp
  next
    case (Some existing)
    with Inr assms have e: "onExistingFile s f existing st = (Inr r, st')"
      by (simp add: ScanFile_def WithDB_def ScanFile_db_def)
    from onExistingFile_flags [OF e] have fl: "\<not> New r \<and> \<not> Renamed r" by simp
    show ?thesis
    proof (cases "ModTime (BaseFile f) \<noteq> ModTime (Base existing)
                   \<or> Basename (Base existing) \<noteq> Basename (BaseFile f) \<or> Rescan s")
      case True
      with onExistingFile_flags [OF e] have "Updated r" by blast
      with fl True Inr Some show ?thesis by simp
    next
      case False
      then have "onUnchangedFile s f existing st = (Inr r, st')"
        using e by (simp add: onExistingFile_def Let_def)
      from onUnchangedFile_outcome [OF this] fl False Inr Some show ?thesis
        by (auto split: prod.splits sum.splits)
    qed
  qed
qed

text \<open>A file seen for the first time, a moved file, a changed file and an unchanged
  file.\<close>
theorem ScanFile_flags_witness:
  "map_sum id (\<lambda>r. (New r, Renamed r, Updated r))
     (fst (ScanFile (demoScanner (demoFS [''/lib/a/y.mp4''] True) [H2])
             (demoScanned ''/lib/a/y.mp4'' ''y.mp4'' None 200 (demoFS [''/lib/a/y.mp4''] True))
             (demoState movedCatalog))) = Inr (True, False, False)
   \<and> map_sum id (\<lambda>r. (New r, Renamed r, Updated r))
     (fst (ScanFile (demoScanner (demoFS [''/lib/b/x.mp4''] True) [H1]) movedScanned
             (demoState movedCatalog))) = Inr (False, True, False)
   \<and> map_sum id (\<lambda>r. (New r, Renamed r, Updated r))
     (fst (ScanFile (demoScanner (demoFS [''/lib/a/x.mp4''] True) [H2])
             (demoScanned ''/lib/a/x.mp4'' ''x.mp4'' None 200 (demoFS [''/lib/a/x.mp4''] True))
             (demoState movedCatalog))) = Inr (False, False, True)
   \<and> map_sum id (\<lambda>r. (New r, Renamed r, Updated r))
     (fst (ScanFile (demoScanner (demoFS [''/lib/a/x.mp4''] True) [H1])
             (demoScanned ''/lib/a/x.mp4'' ''x.mp4'' None 150 (demoFS [''/lib/a/x.mp4''] True))
             (demoState movedCatalog))) = Inr (False, False, False)"
proof -
  let ?X1 = "ScanFile (demoScanner (demoFS [''/lib/a/y.mp4''] True) [H2])
             (demoScanned ''/lib/a/y.mp4'' ''y.mp4'' None 200 (demoFS [''/lib/a/y.mp4''] True))
             (demoState movedCatalog)"
  let ?X2 = "ScanFile (demoScanner (demoFS [''/lib/b/x.mp4''] True) [H1]) movedScanned
             (demoState movedCatalog)"
  let ?X3 = "ScanFile (demoScanner (demoFS [''/lib/a/x.mp4''] True) [H2])
             (demoScanned ''/lib/a/x.mp4'' ''x.mp4'' None 200 (demoFS [''/lib/a/x.mp4''] True))
             (demoState movedCatalog)"
  let ?X4 = "ScanFile (demoScanner (demoFS [''/lib/a/x.mp4''] True) [H1])
             (demoScanned ''/lib/a/x.mp4'' ''x.mp4'' None 150 (demoFS [''/lib/a/x.mp4''] True))
             (demoState movedCatalog)"
  let ?flags = "map_sum id (\<lambda>r. (New r, Renamed r, Updated r))"
  have e1: "?flags (fst ?X1) = Inr (True, False, False)"
    by (simp add: scan_defs demo_defs Let_def)
  have e2: "?flags (fst ?X2) = Inr (False, True, False)"
    by (simp add: moved_result movedResult_def)
  have e3: "?flags (fst ?X3) = Inr (False, False, True)"
    by (simp add: scan_defs demo_defs Let_def)
  have e4: "?flags (fst ?X4) = Inr (False, False, False)"
    by (simp add: scan_defs demo_defs Let_def)
  from e1 obtain r1 where h1: "?X1 = (Inr r1, snd ?X1)"
    by (cases "fst ?X1") (auto simp: prod_eq_iff)
  from e2 obtain r2 where h2: "?X2 = (Inr r2, snd ?X2)"
    by (cases "fst ?X2") (auto simp: prod_eq_iff)
  from e3 obtain r3 where h3: "?X3 = (Inr r3, snd ?X3)"
    by (cases "fst ?X3") (auto simp: prod_eq_iff)
  from e4 obtain r4 where h4: "?X4 = (Inr r4, snd ?X4)"
    by (cases "fst ?X4") (auto simp: prod_eq_iff)
  from ScanFile_flags [OF h1] have a1: "New r1 \<longrightarrow> \<not> Renamed r1 \<and> \<not> Updated r1"
    by (rule conjunct1)
  from ScanFile_flags [OF h2] have a2: "New r2 \<longrightarrow> \<not> Renamed r2 \<and> \<not> Updated r2"
    by (rule conjunct1)
  from ScanFile_flags [OF h3] have a3: "New r3 \<longrightarrow> \<not> Renamed r3 \<and> \<not> Updated r3"
    by (rule conjunct1)
  from ScanFile_flags [OF h4] have a4: "New r4 \<longrightarrow> \<not> Renamed r4 \<and> \<not> Updated r4"
    by (rule conjunct1)
  from a1 a2 a3 a4 e1 e2 e3 e4 show ?thesis
    by blast
qed

end
